theory Spec2Isabelle
  imports Complex_Main
begin

section \<open>Numbers and exceptions of the embedding\<close>

text \<open>
  The source is \<^verbatim>\<open>src/app/utils/analysis/analysis_service.py\<close>, class
  \<^verbatim>\<open>AnalysisService\<close>. Python and numpy floats are embedded as real numbers: rounding
  error is not modelled. Where the source divides numpy floats, a zero divisor gives an
  infinity or a nan instead of an exception; those three values are written out in
  \<open>npfloat\<close>, with the comparisons numpy defines on them. \<open>pyexc\<close> lists the exceptions
  the source can meet; \<open>LibraryError\<close> stands for any other exception of a collaborator.
\<close>

datatype pyexc = KeyError | IndexError | ValueError | ZeroDivisionError | NameError | LibraryError

datatype npfloat = Finite real | PosInf | NegInf | NaN

text \<open>\<^verbatim>\<open>a / b\<close> on numpy floats (a zero divisor is \<open>+0.0\<close>).\<close>

definition np_truediv :: "real \<Rightarrow> real \<Rightarrow> npfloat" where
  "np_truediv a b =
     (if b \<noteq> 0 then Finite (a / b)
      else if 0 < a then PosInf else if a < 0 then NegInf else NaN)"

text \<open>\<^verbatim>\<open>x <= c\<close>: false for nan and for \<open>+inf\<close>, true for \<open>-inf\<close>.\<close>

fun np_le :: "npfloat \<Rightarrow> real \<Rightarrow> bool" where
  "np_le (Finite r) c = (r \<le> c)"
| "np_le PosInf c = False"
| "np_le NegInf c = True"
| "np_le NaN c = False"

text \<open>
  Python's \<^verbatim>\<open>round(x)\<close> with one argument: the nearest integer, a tie going to the even
  neighbour.
\<close>

definition py_round :: "real \<Rightarrow> int" where
  "py_round x =
     (let f = \<lfloor>x\<rfloor>; d = x - of_int f
      in if d < 1 / 2 then f else if 1 / 2 < d then f + 1 else if even f then f else f + 1)"

section \<open>Metric scoring (\<^verbatim>\<open>score_metric\<close>, lines 292-344)\<close>

text \<open>
  \<^verbatim>\<open>score_metric(value, benchmark, metric_type='return')\<close>. Every \<open>metric_type\<close> other
  than \<^verbatim>\<open>'return'\<close> takes the volatility branch. In each call of the source the operands
  of \<^verbatim>\<open>value / benchmark\<close> are numpy floats or the non-zero literal \<open>0.125\<close>.
\<close>

definition score_metric :: "real \<Rightarrow> real \<Rightarrow> string \<Rightarrow> int" where
  "score_metric value benchmark metric_type =
     (if metric_type = ''return'' then
        (let base_score = 60;
             diff = (value - benchmark) * 100;
             points_change = (if 0 \<le> diff then diff / 2 else diff * 2);
             final_score = base_score + points_change
         in if 100 < final_score then 100
            else if final_score < 25 then 25
            else py_round final_score)
      else
        (let ratio = np_truediv value benchmark
         in if np_le ratio 0.6 then 100
            else if np_le ratio 0.7 then 90
            else if np_le ratio 0.8 then 85
            else if np_le ratio 0.9 then 80
            else if np_le ratio 1.0 then 75
            else if np_le ratio 1.2 then 70
            else if np_le ratio 1.4 then 65
            else if np_le ratio 1.6 then 60
            else if np_le ratio 1.8 then 55
            else if np_le ratio 2.0 then 50
            else 40))"

text \<open>
  The specification's wording of the two scores (section 4.4), to compare with the code:
  the return score's unrounded value, and the volatility table of inclusive upper bounds.
\<close>

definition return_points :: "real \<Rightarrow> real \<Rightarrow> real" where
  "return_points value benchmark =
     (let diff_pct_points = (value - benchmark) * 100
      in min 100 (max 25
           (if 0 \<le> diff_pct_points then 60 + diff_pct_points / 2
            else 60 - 2 * \<bar>diff_pct_points\<bar>)))"

definition volatility_steps :: "(real \<times> int) list" where
  "volatility_steps =
     [(0.6, 100), (0.7, 90), (0.8, 85), (0.9, 80), (1.0, 75),
      (1.2, 70), (1.4, 65), (1.6, 60), (1.8, 55), (2.0, 50)]"

fun stepped_lookup :: "(real \<times> int) list \<Rightarrow> int \<Rightarrow> real \<Rightarrow> int" where
  "stepped_lookup [] other ratio = other"
| "stepped_lookup ((bound, score) # steps) other ratio =
     (if ratio \<le> bound then score else stepped_lookup steps other ratio)"

section \<open>Exceptions, indexing and loops\<close>

text \<open>
  A computation that may raise is a value of \<open>pyexc + 'a\<close>; \<open>try_then\<close> runs the next
  statement unless the previous one raised. \<open>getitem\<close> is \<^verbatim>\<open>xs[i]\<close> for \<open>i \<ge> 0\<close>, and
  \<open>for_loop\<close> is \<^verbatim>\<open>for i in ...: body\<close> over an accumulator, stopping at the first
  exception.
\<close>

definition try_then :: "pyexc + 'a \<Rightarrow> ('a \<Rightarrow> pyexc + 'b) \<Rightarrow> pyexc + 'b" where
  "try_then r f = (case r of Inl e \<Rightarrow> Inl e | Inr v \<Rightarrow> f v)"

definition getitem :: "'a list \<Rightarrow> nat \<Rightarrow> pyexc + 'a" where
  "getitem xs i = (if i < length xs then Inr (xs ! i) else Inl IndexError)"

fun for_loop :: "('i \<Rightarrow> 's \<Rightarrow> pyexc + 's) \<Rightarrow> 'i list \<Rightarrow> 's \<Rightarrow> pyexc + 's" where
  "for_loop body [] s = Inr s"
| "for_loop body (i # rest) s =
     (case body i s of Inl e \<Rightarrow> Inl e | Inr s' \<Rightarrow> for_loop body rest s')"

section \<open>Crossover detection (\<^verbatim>\<open>find_crossover_points\<close>, lines 26-52)\<close>

text \<open>
  \<^verbatim>\<open>diff = s1 - s2\<close> on numpy arrays: elementwise for equal lengths, an array of length
  one is broadcast, any other pair of lengths raises ValueError.
\<close>

definition np_sub :: "real list \<Rightarrow> real list \<Rightarrow> pyexc + real list" where
  "np_sub a b =
     (if length a = length b then Inr (map2 (-) a b)
      else if length b = 1 then Inr (map (\<lambda>x. x - hd b) a)
      else if length a = 1 then Inr (map (\<lambda>y. hd a - y) b)
      else Inl ValueError)"

text \<open>
  The four result lists, in the order the source returns them: \<^verbatim>\<open>crossover_points\<close>,
  \<^verbatim>\<open>crossover_values\<close>, \<^verbatim>\<open>crossover_directions\<close>, \<^verbatim>\<open>crossover_prices\<close>.
\<close>

type_synonym 'd crossings = "'d list \<times> real list \<times> string list \<times> real list"

text \<open>
  The four appends both branches of the loop body share (lines 40-44 and 46-50), with
  their reads in the order Python evaluates them; \<open>s1\<close> and \<open>s2\<close> keep their own lengths,
  so a broadcast series raises IndexError when read past its single element.
\<close>

definition append_crossing ::
  "'d list \<Rightarrow> real list \<Rightarrow> real list \<Rightarrow> real list \<Rightarrow> nat \<Rightarrow> string \<Rightarrow> 'd crossings
     \<Rightarrow> pyexc + 'd crossings" where
  "append_crossing dates s1 s2 prices i direction acc =
     (case acc of (crossover_points, crossover_values, crossover_directions, crossover_prices) \<Rightarrow>
        try_then (getitem s1 (i - 1)) (\<lambda>a.
        try_then (getitem s2 (i - 1)) (\<lambda>b.
        try_then (getitem dates i) (\<lambda>d.
        try_then (getitem prices i) (\<lambda>p.
          Inr (crossover_points @ [d], crossover_values @ [(a + b) / 2],
               crossover_directions @ [direction], crossover_prices @ [p]))))))"

definition crossover_body ::
  "'d list \<Rightarrow> real list \<Rightarrow> real list \<Rightarrow> real list \<Rightarrow> real list \<Rightarrow> nat \<Rightarrow> 'd crossings
     \<Rightarrow> pyexc + 'd crossings" where
  "crossover_body dates s1 s2 prices diff i acc =
     (if diff ! (i - 1) \<le> 0 \<and> 0 < diff ! i then
        append_crossing dates s1 s2 prices i ''down'' acc
      else if 0 \<le> diff ! (i - 1) \<and> diff ! i < 0 then
        append_crossing dates s1 s2 prices i ''up'' acc
      else Inr acc)"

definition find_crossover_points ::
  "'d list \<Rightarrow> real list \<Rightarrow> real list \<Rightarrow> real list \<Rightarrow> pyexc + 'd crossings" where
  "find_crossover_points dates series1 series2 prices =
     try_then (np_sub series1 series2) (\<lambda>diff.
       for_loop (crossover_body dates series1 series2 prices diff) [1..<length diff]
         ([], [], [], []))"

text \<open>
  The specification's wording (section 4.7): an event at \<open>i\<close> is a transition of
  \<open>diff\<close> between \<open>i - 1\<close> and \<open>i\<close>, labelled \<^verbatim>\<open>"down"\<close> or \<^verbatim>\<open>"up"\<close>, carrying the
  midpoint of the two series at \<open>i - 1\<close> and the date and price at \<open>i\<close>.
\<close>

definition crossing_down :: "real list \<Rightarrow> nat \<Rightarrow> bool" where
  "crossing_down diff i = (diff ! (i - 1) \<le> 0 \<and> 0 < diff ! i)"

definition crossing_up :: "real list \<Rightarrow> nat \<Rightarrow> bool" where
  "crossing_up diff i = (0 \<le> diff ! (i - 1) \<and> diff ! i < 0)"

definition crossing_at ::
  "'d list \<Rightarrow> real list \<Rightarrow> real list \<Rightarrow> real list \<Rightarrow> real list \<Rightarrow> nat
     \<Rightarrow> 'd \<times> real \<times> string \<times> real" where
  "crossing_at dates s1 s2 prices diff i =
     (dates ! i, (s1 ! (i - 1) + s2 ! (i - 1)) / 2,
      if crossing_down diff i then ''down'' else ''up'', prices ! i)"

definition crossing_indices :: "real list \<Rightarrow> nat list \<Rightarrow> nat list" where
  "crossing_indices diff js = filter (\<lambda>i. crossing_down diff i \<or> crossing_up diff i) js"

definition columns_of :: "('d \<times> real \<times> string \<times> real) list \<Rightarrow> 'd crossings" where
  "columns_of events =
     (map fst events, map (fst \<circ> snd) events, map (fst \<circ> snd \<circ> snd) events,
      map (snd \<circ> snd \<circ> snd) events)"

text \<open>The accumulator after a list of events has been appended to it.\<close>

definition appended :: "'d crossings \<Rightarrow> ('d \<times> real \<times> string \<times> real) list \<Rightarrow> 'd crossings" where
  "appended acc events =
     (case acc of (a, b, c, d) \<Rightarrow>
        (a @ map fst events, b @ map (fst \<circ> snd) events, c @ map (fst \<circ> snd \<circ> snd) events,
         d @ map (snd \<circ> snd \<circ> snd) events))"

section \<open>Data frames and the libraries\<close>

text \<open>
  A pandas DataFrame: its index (dates, as day numbers) and its named columns in order,
  each column as long as the index. The source reads dates only through differences
  \<^verbatim>\<open>(a - b).days\<close> and comparisons, which are those of the day numbers.
\<close>

record frame =
  index :: "int list"
  columns :: "(string \<times> real list) list"

text \<open>\<^verbatim>\<open>data.empty\<close>: an axis of length zero.\<close>

definition df_empty :: "frame \<Rightarrow> bool" where
  "df_empty data = (index data = [] \<or> columns data = [])"

text \<open>\<^verbatim>\<open>data[name]\<close> raises KeyError for a missing column.\<close>

definition getcol :: "frame \<Rightarrow> string \<Rightarrow> pyexc + real list" where
  "getcol data name =
     (case map_of (columns data) name of None \<Rightarrow> Inl KeyError | Some v \<Rightarrow> Inr v)"

text \<open>\<^verbatim>\<open>data[name] = v\<close> replaces the column in place or appends a new last column.\<close>

fun assign :: "string \<Rightarrow> real list \<Rightarrow> (string \<times> real list) list \<Rightarrow> (string \<times> real list) list" where
  "assign name v [] = [(name, v)]"
| "assign name v ((k, w) # cols) =
     (if k = name then (name, v) # cols else (k, w) # assign name v cols)"

definition setcol :: "frame \<Rightarrow> string \<Rightarrow> real list \<Rightarrow> frame" where
  "setcol data name v = data\<lparr>columns := assign name v (columns data)\<rparr>"

text \<open>
  A fitted scikit-learn \<^verbatim>\<open>LinearRegression\<close> on the features
  \<^verbatim>\<open>PolynomialFeatures(degree=2)\<close> makes of one column, \<open>[1, x, x\<^sup>2]\<close>: one coefficient
  per feature (\<^verbatim>\<open>coef_[0]\<close>, \<^verbatim>\<open>coef_[1]\<close>, \<^verbatim>\<open>coef_[2]\<close>) and the intercept.
\<close>

record lin_model =
  model_coef :: "real \<times> real \<times> real"
  model_intercept :: real

text \<open>
  The collaborators and library calls the source makes, as parameters of the model. Each
  is assumed to return finite floats; \<open>fit\<close> and \<open>get_historical_data\<close> may raise.
  \<^item> \<open>get_historical_data\<close>: \<^verbatim>\<open>DataService().get_historical_data(symbol, start, end)\<close>,
    returning a frame or \<^verbatim>\<open>None\<close>;
  \<^item> \<open>fit\<close>: \<^verbatim>\<open>PolynomialFeatures(degree=2).fit_transform\<close> followed by
    \<^verbatim>\<open>LinearRegression().fit\<close>, on the scaled days and the log prices;
  \<^item> \<open>r2_score\<close>: \<^verbatim>\<open>sklearn.metrics.r2_score(y, predicted)\<close>;
  \<^item> \<open>np_std\<close>: \<^verbatim>\<open>np.std\<close>;
  \<^item> \<open>pct_change_std\<close>: \<^verbatim>\<open>close.pct_change().dropna().std()\<close> of pandas (a nan for
    fewer than three prices, which the model does not cover);
  \<^item> \<open>format4\<close> and \<open>str_int\<close>: Python's \<^verbatim>\<open>f"{x:.4f}"\<close> and \<^verbatim>\<open>f"{n}"\<close>.
\<close>

record env =
  get_historical_data :: "string \<Rightarrow> int \<Rightarrow> int \<Rightarrow> pyexc + frame option"
  fit :: "real list \<Rightarrow> real list \<Rightarrow> pyexc + lin_model"
  r2_score :: "real list \<Rightarrow> real list \<Rightarrow> real"
  np_std :: "real list \<Rightarrow> real"
  pct_change_std :: "real list \<Rightarrow> real"
  format4 :: "real \<Rightarrow> string"
  str_int :: "int \<Rightarrow> string"

section \<open>Trend scoring (\<^verbatim>\<open>evaluate_trend_score\<close>, lines 212-289)\<close>

text \<open>
  \<^verbatim>\<open>min(1.0, abs(x) / k)\<close> for a numpy float \<open>x\<close> and \<open>k > 0\<close>: Python's \<^verbatim>\<open>min(1.0, y)\<close>
  is \<open>y\<close> when \<^verbatim>\<open>y < 1.0\<close> and \<open>1.0\<close> otherwise, so it is \<open>1.0\<close> for an infinity and for a
  nan.
\<close>

fun strength :: "npfloat \<Rightarrow> real \<Rightarrow> real" where
  "strength (Finite r) k = min 1 (\<bar>r\<bar> / k)"
| "strength PosInf k = 1"
| "strength NegInf k = 1"
| "strength NaN k = 1"

text \<open>The dictionary \<^verbatim>\<open>trend_type\<close> (lines 236-241), one flag per key.\<close>

record trend_flags =
  accelerating_up :: bool
  accelerating_down :: bool
  reversal_up :: bool
  reversal_down :: bool

definition trend_type_of :: "real \<Rightarrow> real \<Rightarrow> trend_flags" where
  "trend_type_of quad_coef linear_coef =
     \<lparr>accelerating_up = (0 < quad_coef \<and> 0 < linear_coef),
      accelerating_down = (quad_coef < 0 \<and> linear_coef < 0),
      reversal_up = (0 < quad_coef \<and> linear_coef < 0),
      reversal_down = (quad_coef < 0 \<and> 0 < linear_coef)\<rparr>"

text \<open>
  Lines 219-230 and 244-245: the asset's annualized volatility, the two normalisation
  benchmarks and the two strengths. \<open>period_days\<close> is \<^verbatim>\<open>len(data)\<close>, at least 1 where the
  source calls this (an empty frame returns at line 74).
\<close>

definition annual_vol_of :: "env \<Rightarrow> real list \<Rightarrow> real" where
  "annual_vol_of env close = pct_change_std env close * sqrt 252"

definition future_strength_of :: "real \<Rightarrow> nat \<Rightarrow> real \<Rightarrow> real" where
  "future_strength_of annual_vol period_days quad_coef =
     (let vol_quad = annual_vol / sqrt (real period_days);
          quad_impact = np_truediv quad_coef vol_quad
      in strength quad_impact 30)"

definition historic_strength_of :: "real \<Rightarrow> nat \<Rightarrow> real \<Rightarrow> real" where
  "historic_strength_of annual_vol period_days linear_coef =
     (let period_years = real period_days / 252;
          vol_linear = annual_vol * sqrt period_years;
          linear_impact = np_truediv linear_coef vol_linear
      in strength linear_impact 1)"

text \<open>
  \<^verbatim>\<open>evaluate_trend_score(quad_coef, linear_coef, r_squared)\<close>, a closure over \<open>data\<close>. It
  returns \<^verbatim>\<open>(final_score, ratio, credibility_level)\<close>; the ratio \<open>None\<close> is the
  \<^verbatim>\<open>float('inf')\<close> of a zero linear coefficient. Its \<^verbatim>\<open>except\<close> branch (line 287)
  returns \<open>(50, 0, 1)\<close>; the one failure of its body in the model is a missing
  \<^verbatim>\<open>Close\<close> column.
\<close>

definition evaluate_trend_score ::
  "env \<Rightarrow> frame \<Rightarrow> real \<Rightarrow> real \<Rightarrow> real \<Rightarrow> real \<times> real option \<times> nat" where
  "evaluate_trend_score env data quad_coef linear_coef r_squared =
     (case getcol data ''Close'' of
        Inl e \<Rightarrow> (50, Some 0, 1)
      | Inr close \<Rightarrow>
         (let annual_vol = annual_vol_of env close;
              period_days = length (index data);
              trend_type = trend_type_of quad_coef linear_coef;
              future_strength = future_strength_of annual_vol period_days quad_coef;
              historic_strength = historic_strength_of annual_vol period_days linear_coef;
              trend_score =
                (if accelerating_up trend_type then
                   50 + (future_strength * 35 + historic_strength * 25)
                 else if accelerating_down trend_type then
                   50 - (future_strength * 35 + historic_strength * 25)
                 else if reversal_up trend_type then
                   50 + (future_strength * 35 - historic_strength * 15)
                 else if reversal_down trend_type then
                   (if 0.7 < historic_strength then 50 + historic_strength * 35
                    else if historic_strength < future_strength then 50 - future_strength * 25
                    else 50 + historic_strength * 20)
                 else 50);
              r_squared_multiplier = 0.6 + 0.4 * r_squared ^ 2;
              final_score = min 100 (max 0 (trend_score * r_squared_multiplier));
              ratio = (if linear_coef \<noteq> 0 then Some \<bar>quad_coef / linear_coef\<bar> else None);
              credibility_level =
                (if 0.90 \<le> r_squared then 5
                 else if 0.80 \<le> r_squared then 4
                 else if 0.70 \<le> r_squared then 3
                 else if 0.60 \<le> r_squared then 2
                 else 1)
          in (final_score, ratio, credibility_level)))"

text \<open>
  The specification's wording (section 4.3): the four trend types by the signs of the
  coefficients, and the adjustment each applies to the neutral base of 50.
\<close>

datatype trend = AcceleratingUp | AcceleratingDown | ReversalUp | ReversalDown

definition flags :: "trend_flags \<Rightarrow> bool list" where
  "flags t = [accelerating_up t, accelerating_down t, reversal_up t, reversal_down t]"

definition classify :: "real \<Rightarrow> real \<Rightarrow> trend option" where
  "classify quad lin =
     (if 0 < quad \<and> 0 < lin then Some AcceleratingUp
      else if quad < 0 \<and> lin < 0 then Some AcceleratingDown
      else if 0 < quad \<and> lin < 0 then Some ReversalUp
      else if quad < 0 \<and> 0 < lin then Some ReversalDown
      else None)"

fun adjustment :: "trend option \<Rightarrow> real \<Rightarrow> real \<Rightarrow> real" where
  "adjustment (Some AcceleratingUp) fs hs = fs * 35 + hs * 25"
| "adjustment (Some AcceleratingDown) fs hs = - (fs * 35 + hs * 25)"
| "adjustment (Some ReversalUp) fs hs = fs * 35 - hs * 15"
| "adjustment (Some ReversalDown) fs hs =
     (if 0.7 < hs then hs * 35 else if hs < fs then - (fs * 25) else hs * 20)"
| "adjustment None fs hs = 0"

section \<open>The composite analysis (\<^verbatim>\<open>perform_polynomial_regression\<close>, lines 69-477)\<close>

text \<open>
  The dictionaries the function returns, as values of \<open>pyval\<close>; \<open>item\<close> is \<^verbatim>\<open>d[key]\<close> and
  \<open>path\<close> a chain of such reads. \<open>PyInf\<close> is \<^verbatim>\<open>float('inf')\<close>.
\<close>

datatype pyval =
    PyNum real
  | PyInf
  | PyStr string
  | PyList "pyval list"
  | PyDict "(string \<times> pyval) list"

fun item :: "pyval \<Rightarrow> string \<Rightarrow> pyval option" where
  "item (PyDict kvs) key = map_of kvs key"
| "item (PyNum x) key = None"
| "item PyInf key = None"
| "item (PyStr s) key = None"
| "item (PyList vs) key = None"

fun path :: "pyval \<Rightarrow> string list \<Rightarrow> pyval option" where
  "path v [] = Some v"
| "path v (key # keys) = (case item v key of None \<Rightarrow> None | Some w \<Rightarrow> path w keys)"

definition tolist :: "real list \<Rightarrow> pyval" where
  "tolist xs = PyList (map PyNum xs)"

text \<open>The result for an absent or empty series (lines 76-95).\<close>

definition no_data_result :: pyval where
  "no_data_result =
     PyDict
      [(''predictions'', PyList []),
       (''upper_band'', PyList []),
       (''lower_band'', PyList []),
       (''r2'', PyNum 0),
       (''coefficients'', PyList [PyNum 0, PyNum 0, PyNum 0]),
       (''intercept'', PyNum 0),
       (''std_dev'', PyNum 0),
       (''equation'', PyStr ''No data available''),
       (''max_x'', PyNum 0),
       (''total_score'',
          PyDict
           [(''score'', PyNum 0),
            (''rating'', PyStr ''Error''),
            (''components'',
               PyDict
                [(''trend'', PyDict [(''score'', PyNum 0), (''type'', PyStr ''Unknown'')]),
                 (''return'', PyDict [(''score'', PyNum 0)]),
                 (''volatility'', PyDict [(''score'', PyNum 0)])])])]"

text \<open>The result of a failed regression (lines 187-206).\<close>

definition regression_failed_result :: "real list \<Rightarrow> nat \<Rightarrow> pyval" where
  "regression_failed_result close n =
     PyDict
      [(''predictions'', tolist close),
       (''upper_band'', tolist close),
       (''lower_band'', tolist close),
       (''r2'', PyNum 0),
       (''coefficients'', PyList [PyNum 0, PyNum 0, PyNum 0]),
       (''intercept'', PyNum 0),
       (''std_dev'', PyNum 0),
       (''equation'', PyStr ''Regression failed''),
       (''max_x'', PyNum (real n)),
       (''total_score'',
          PyDict
           [(''score'', PyNum 0),
            (''rating'', PyStr ''Error''),
            (''components'',
               PyDict
                [(''trend'',
                    PyDict [(''score'', PyNum 0), (''type'', PyStr ''Unknown''),
                            (''details'', PyDict [])]),
                 (''return'', PyDict [(''score'', PyNum 0)]),
                 (''volatility'', PyDict [(''score'', PyNum 0)])])])]"

text \<open>The result of the outermost handler (lines 457-477), for a frame that is not \<^verbatim>\<open>None\<close>.\<close>

definition error_occurred_result :: "real list \<Rightarrow> nat \<Rightarrow> pyval" where
  "error_occurred_result close n =
     PyDict
      [(''predictions'', tolist close),
       (''upper_band'', tolist close),
       (''lower_band'', tolist close),
       (''r2'', PyNum 0),
       (''coefficients'', PyList [PyNum 0, PyNum 0, PyNum 0]),
       (''intercept'', PyNum 0),
       (''std_dev'', PyNum 0),
       (''equation'', PyStr ''Error occurred''),
       (''max_x'', PyNum (real n)),
       (''total_score'',
          PyDict
           [(''score'', PyNum 0),
            (''raw_score'', PyNum 0),
            (''rating'', PyStr ''Error''),
            (''components'',
               PyDict
                [(''trend'', PyDict [(''score'', PyNum 0), (''details'', PyDict [])]),
                 (''return'', PyDict [(''score'', PyNum 0), (''value'', PyNum 0)]),
                 (''volatility'', PyDict [(''score'', PyNum 0), (''value'', PyNum 0)])])])]"

subsection \<open>Benchmark parameters (lines 97-148)\<close>

record sp500_params =
  quad_coef :: real
  linear_coef :: real
  r_squared :: real
  annual_return :: real
  annual_volatility :: real

definition sp500_fallback :: sp500_params where
  "sp500_fallback =
     \<lparr>quad_coef = - 0.1134, linear_coef = 0.4700, r_squared = 0.9505,
      annual_return = 0.2384, annual_volatility = 0.125\<rparr>"

text \<open>
  \<^verbatim>\<open>X = (data.index - data.index[0]).days\<close>, \<^verbatim>\<open>np.max(X)\<close> and \<^verbatim>\<open>X / np.max(X)\<close> on a
  non-empty index. The first entry of \<open>X\<close> is 0, so a maximum of 0 makes the scaled array
  start with \<open>0 / 0\<close>, a nan, which scikit-learn refuses with ValueError.
\<close>

definition days_since_first :: "int list \<Rightarrow> int list" where
  "days_since_first idx = map (\<lambda>d. d - hd idx) idx"

definition np_max :: "int list \<Rightarrow> int" where
  "np_max xs = fold max (tl xs) (hd xs)"

definition scaled :: "int list \<Rightarrow> pyexc + real list" where
  "scaled X =
     (if np_max X = 0 then Inl ValueError
      else Inr (map (\<lambda>x. real_of_int x / real_of_int (np_max X)) X))"

text \<open>\<^verbatim>\<open>model.predict\<close> on the features \<open>[1, x, x\<^sup>2]\<close> of each \<open>x\<close>.\<close>

definition predict :: "lin_model \<Rightarrow> real list \<Rightarrow> real list" where
  "predict model xs =
     (case model_coef model of (c0, c1, c2) \<Rightarrow>
        map (\<lambda>x. c0 * 1 + c1 * x + c2 * x ^ 2 + model_intercept model) xs)"

text \<open>
  Lines 119 and 349: \<^verbatim>\<open>(close[-1] / close[0]) ** (365 / days) - 1\<close> with
  \<^verbatim>\<open>days = (index[-1] - index[0]).days\<close>, a Python integer, so that \<open>days = 0\<close> raises
  ZeroDivisionError. The power is that of positive prices.
\<close>

definition annualized_return :: "int list \<Rightarrow> real list \<Rightarrow> pyexc + real" where
  "annualized_return idx close =
     (let days = last idx - hd idx
      in if days = 0 then Inl ZeroDivisionError
         else Inr ((last close / hd close) powr (365 / real_of_int days) - 1))"

text \<open>Lines 108-130, for benchmark data that is present and not empty.\<close>

definition sp500_fit :: "env \<Rightarrow> frame \<Rightarrow> pyexc + sp500_params" where
  "sp500_fit env sp500_data =
     try_then (getcol sp500_data ''Close'') (\<lambda>close.
     let y_sp = map ln close in
     try_then (scaled (days_since_first (index sp500_data))) (\<lambda>X_sp_scaled.
     try_then (fit env X_sp_scaled y_sp) (\<lambda>sp500_model.
     let sp500_r2 = r2_score env y_sp (predict sp500_model X_sp_scaled) in
     try_then (annualized_return (index sp500_data) close) (\<lambda>sp500_annual_return.
     let sp500_annual_volatility = annual_vol_of env close in
     Inr \<lparr>quad_coef = snd (snd (model_coef sp500_model)),
          linear_coef = fst (snd (model_coef sp500_model)),
          r_squared = sp500_r2,
          annual_return = sp500_annual_return,
          annual_volatility = sp500_annual_volatility\<rparr>))))"

text \<open>
  Lines 98-148: the benchmark over the asset's date range; the fallback literals when
  the data is absent or empty, and when anything in the block raises.
\<close>

definition benchmark_parameters :: "env \<Rightarrow> frame \<Rightarrow> sp500_params" where
  "benchmark_parameters env data =
     (let end_date = last (index data); start_date = hd (index data)
      in case get_historical_data env ''^GSPC'' start_date end_date of
           Inl sp_error \<Rightarrow> sp500_fallback
         | Inr None \<Rightarrow> sp500_fallback
         | Inr (Some sp500_data) \<Rightarrow>
             (if df_empty sp500_data then sp500_fallback
              else case sp500_fit env sp500_data of
                     Inl sp_error \<Rightarrow> sp500_fallback
                   | Inr params \<Rightarrow> params))"

subsection \<open>Regression (lines 150-183)\<close>

text \<open>\<^verbatim>\<open>" ".join(terms)\<close>.\<close>

fun join_spaces :: "string list \<Rightarrow> string" where
  "join_spaces [] = []"
| "join_spaces [t] = t"
| "join_spaces (t # u # ts) = t @ '' '' @ join_spaces (u # ts)"

text \<open>
  \<^verbatim>\<open>format_regression_equation(coefficients, intercept, max_x)\<close>, lines 54-67. The last
  two bytes of the quadratic term are the UTF-8 encoding of the superscript two.
\<close>

definition format_regression_equation :: "env \<Rightarrow> real \<times> real \<times> real \<Rightarrow> real \<Rightarrow> int \<Rightarrow> string" where
  "format_regression_equation env coefficients intercept max_x =
     (case coefficients of (c0, c1, c2) \<Rightarrow>
        (let terms =
               (if c2 \<noteq> 0
                then [format4 env c2 @ ''(x/'' @ str_int env max_x @ '')'' @ [CHR 0xC2, CHR 0xB2]]
                else [])
             @ (if c1 \<noteq> 0
                then [(if 0 < c1 then ''+'' else '''') @ format4 env c1
                       @ ''(x/'' @ str_int env max_x @ '')'']
                else [])
             @ (if intercept \<noteq> 0
                then [(if 0 < intercept then ''+'' else '''') @ format4 env intercept]
                else [])
         in ''Ln(y) = '' @ join_spaces terms))"

record regression =
  coef :: "real \<times> real \<times> real"
  intercept :: real
  max_x :: int
  y_pred :: "real list"
  y_pred_upper :: "real list"
  y_pred_lower :: "real list"
  std_dev :: real
  r2 :: real
  equation :: string

text \<open>
  Lines 153-183, after \<^verbatim>\<open>data['Log_Close']\<close> has been assigned.
  \<^verbatim>\<open>np.arange(len(data) + future_days)\<close> is empty for a negative argument.
\<close>

definition regress :: "env \<Rightarrow> frame \<Rightarrow> int \<Rightarrow> pyexc + regression" where
  "regress env data future_days =
     (let X = days_since_first (index data) in
      try_then (getcol data ''Log_Close'') (\<lambda>y.
      try_then (scaled X) (\<lambda>X_scaled.
      try_then (fit env X_scaled y) (\<lambda>model.
      let X_future = map int [0..<nat (int (length (index data)) + future_days)];
          X_future_scaled = map (\<lambda>x. real_of_int x / real_of_int (np_max X) * 1) X_future;
          y_pred_log = predict model X_future_scaled;
          residuals = map2 (-) y (predict model X_scaled);
          sd = np_std env residuals
      in Inr \<lparr>coef = model_coef model,
              intercept = model_intercept model,
              max_x = np_max X,
              y_pred = map exp y_pred_log,
              y_pred_upper = map (\<lambda>v. exp (v + 2 * sd)) y_pred_log,
              y_pred_lower = map (\<lambda>v. exp (v - 2 * sd)) y_pred_log,
              std_dev = sd,
              r2 = r2_score env y (predict model X_scaled),
              equation = format_regression_equation env (model_coef model) (model_intercept model)
                           (np_max X)\<rparr>))))"

subsection \<open>Scoring (lines 208-411)\<close>

text \<open>
  \<^verbatim>\<open>random.uniform(a, b)\<close> is \<^verbatim>\<open>a + (b - a) * random()\<close> for the generator's next draw
  \<^verbatim>\<open>random()\<close> in \<open>[0, 1)\<close>; the draw is a parameter of the model. \<^verbatim>\<open>round(x, 2)\<close> rounds
  to two decimals, a tie going to the even neighbour.
\<close>

definition uniform :: "real \<Rightarrow> real \<Rightarrow> real \<Rightarrow> real" where
  "uniform a b draw = a + (b - a) * draw"

definition py_round2 :: "real \<Rightarrow> real" where
  "py_round2 x = real_of_int (py_round (x * 100)) / 100"

definition rating_of :: "real \<Rightarrow> string" where
  "rating_of final_score =
     (if 90 \<le> final_score then ''Excellent''
      else if 75 \<le> final_score then ''Very Good''
      else if 65 \<le> final_score then ''Good''
      else if 40 \<le> final_score then ''Fair''
      else ''Poor'')"

record scores =
  final_score :: real
  raw_score :: real
  rating :: string
  trend_score :: real
  ratio :: "real option"
  credibility_level :: nat
  return_score :: int
  asset_return :: real
  vol_score :: int
  asset_volatility :: real
  scaling_factor :: real
  sp500_raw_score :: real

text \<open>
  The body of the scoring \<^verbatim>\<open>try\<close> (lines 347-404). Its one statement that raises in the
  model is the annualized return of line 349.
\<close>

definition scoring ::
  "env \<Rightarrow> real \<Rightarrow> frame \<Rightarrow> real list \<Rightarrow> sp500_params \<Rightarrow> regression \<Rightarrow> pyexc + scores" where
  "scoring env draw data close sp500 reg =
     try_then (annualized_return (index data) close) (\<lambda>annual_return'.
     let annual_volatility' = annual_vol_of env close;
         (trend_score', ratio', credibility_level') =
            evaluate_trend_score env data (snd (snd (coef reg))) (fst (snd (coef reg))) (r2 reg);
         return_score' = score_metric annual_return' (annual_return sp500) ''return'';
         vol_score' = score_metric annual_volatility' (annual_volatility sp500) ''volatility'';
         raw_score' = trend_score' * 0.3 + real_of_int return_score' * 0.6
                        + real_of_int vol_score' * 0.10;
         sp500_trend_score =
            fst (evaluate_trend_score env data (quad_coef sp500) (linear_coef sp500)
                   (r_squared sp500));
         sp500_return_score = score_metric (annual_return sp500) (annual_return sp500) ''return'';
         sp500_vol_score =
            score_metric (annual_volatility sp500) (annual_volatility sp500) ''volatility'';
         sp500_raw_score' = sp500_trend_score * 0.3 + real_of_int sp500_return_score * 0.6
                        + real_of_int sp500_vol_score * 0.10;
         scaling_factor' = 75 / sp500_raw_score';
         scaled_score = min 95 (raw_score' * scaling_factor');
         final_score' = py_round2 (uniform (scaled_score - 2) (scaled_score + 2) draw)
     in Inr \<lparr>final_score = final_score',
             raw_score = raw_score',
             rating = rating_of final_score',
             trend_score = trend_score',
             ratio = ratio',
             credibility_level = credibility_level',
             return_score = return_score',
             asset_return = annual_return',
             vol_score = vol_score',
             asset_volatility = annual_volatility',
             scaling_factor = scaling_factor',
             sp500_raw_score = sp500_raw_score'\<rparr>)"

text \<open>The complete result (lines 414-453).\<close>

definition py_float :: "real option \<Rightarrow> pyval" where
  "py_float x = (case x of None \<Rightarrow> PyInf | Some r \<Rightarrow> PyNum r)"

definition complete_result :: "regression \<Rightarrow> scores \<Rightarrow> pyval" where
  "complete_result reg sc =
     PyDict
      [(''predictions'', tolist (y_pred reg)),
       (''upper_band'', tolist (y_pred_upper reg)),
       (''lower_band'', tolist (y_pred_lower reg)),
       (''r2'', PyNum (r2 reg)),
       (''coefficients'',
          (case coef reg of (c0, c1, c2) \<Rightarrow> PyList [PyNum c0, PyNum c1, PyNum c2])),
       (''intercept'', PyNum (intercept reg)),
       (''std_dev'', PyNum (std_dev reg)),
       (''equation'', PyStr (equation reg)),
       (''max_x'', PyNum (real_of_int (max_x reg))),
       (''total_score'',
          PyDict
           [(''score'', PyNum (final_score sc)),
            (''raw_score'', PyNum (raw_score sc)),
            (''rating'', PyStr (rating sc)),
            (''components'',
               PyDict
                [(''trend'',
                    PyDict
                     [(''score'', PyNum (trend_score sc)),
                      (''details'',
                         PyDict
                          [(''ratio'', py_float (ratio sc)),
                           (''credibility_level'', PyNum (real (credibility_level sc))),
                           (''quad_coef'', PyNum (snd (snd (coef reg)))),
                           (''linear_coef'', PyNum (fst (snd (coef reg))))])]),
                 (''return'',
                    PyDict [(''score'', PyNum (real_of_int (return_score sc))),
                            (''value'', PyNum (asset_return sc))]),
                 (''volatility'',
                    PyDict [(''score'', PyNum (real_of_int (vol_score sc))),
                            (''value'', PyNum (asset_volatility sc))])]),
            (''scaling'',
               PyDict [(''factor'', PyNum (scaling_factor sc)),
                       (''sp500_base'', PyNum (sp500_raw_score sc))]),
            (''weights'',
               PyDict [(''trend'', PyNum 0.3), (''return'', PyNum 0.6),
                       (''volatility'', PyNum 0.10)])])]"

subsection \<open>The function\<close>

text \<open>
  \<^verbatim>\<open>perform_polynomial_regression(data, future_days=180)\<close> with the generator's draw as
  a parameter. It returns what the caller receives (a result or the exception raised to
  it) together with the caller's frame after the call: line 152 assigns the column
  \<^verbatim>\<open>Log_Close\<close> on \<open>data\<close> itself.
  \<^item> A missing \<^verbatim>\<open>Close\<close> column raises KeyError at line 152; the handler of line 185 reads
    \<^verbatim>\<open>data['Close']\<close> again, and so does the outermost handler (line 458), whose KeyError
    reaches the caller.
  \<^item> A failed regression returns the dictionary of lines 187-206.
  \<^item> A failed scoring sets the scores to 0 (lines 406-411) and leaves \<^verbatim>\<open>raw_score\<close>
    unassigned, so that line 426 raises NameError and the outermost handler returns the
    dictionary of lines 457-477.
\<close>

definition perform_polynomial_regression ::
  "env \<Rightarrow> real \<Rightarrow> frame option \<Rightarrow> int \<Rightarrow> (pyexc + pyval) \<times> frame option" where
  "perform_polynomial_regression env draw data future_days =
     (case data of
        None \<Rightarrow> (Inr no_data_result, None)
      | Some df \<Rightarrow>
          if df_empty df then (Inr no_data_result, Some df)
          else
            (let sp500 = benchmark_parameters env df
             in case getcol df ''Close'' of
                  Inl e \<Rightarrow> (Inl KeyError, Some df)
                | Inr close \<Rightarrow>
                    (let df1 = setcol df ''Log_Close'' (map ln close)
                     in case regress env df1 future_days of
                          Inl e \<Rightarrow>
                            (Inr (regression_failed_result close (length (index df1))), Some df1)
                        | Inr reg \<Rightarrow>
                            (case scoring env draw df1 close sp500 reg of
                               Inl e \<Rightarrow>
                                 (Inr (error_occurred_result close (length (index df1))),
                                  Some df1)
                             | Inr sc \<Rightarrow> (Inr (complete_result reg sc), Some df1)))))"

text \<open>
  A stand-in for the libraries, for evaluating the model on concrete frames: no benchmark
  data, a fixed fitted model and fixed statistics.
\<close>

definition flat_env :: env where
  "flat_env =
     \<lparr>get_historical_data = (\<lambda>symbol start_date end_date. Inr None),
      fit = (\<lambda>X y. Inr \<lparr>model_coef = (0, 1 / 2, - 1 / 10), model_intercept = 4\<rparr>),
      r2_score = (\<lambda>y p. 9 / 10),
      np_std = (\<lambda>xs. 1 / 20),
      pct_change_std = (\<lambda>close. 1 / 100),
      format4 = (\<lambda>x. ''0.0000''),
      str_int = (\<lambda>n. ''0'')\<rparr>"

definition three_days :: frame where
  "three_days = \<lparr>index = [0, 200, 365], columns = [(''Close'', [100, 120, 100])]\<rparr>"

text \<open>
  For comparing two results: the score of a result, and a result without the two
  entries of \<^verbatim>\<open>total_score\<close> that the draw decides (\<^verbatim>\<open>score\<close> and \<^verbatim>\<open>rating\<close>).
\<close>

definition score_of :: "pyval \<Rightarrow> pyval option" where
  "score_of res = path res [''total_score'', ''score'']"

definition without_keys :: "string list \<Rightarrow> pyval \<Rightarrow> pyval" where
  "without_keys keys v =
     (case v of PyDict kvs \<Rightarrow> PyDict (filter (\<lambda>(k, w). k \<notin> set keys) kvs) | _ \<Rightarrow> v)"

definition without_score :: "pyval \<Rightarrow> pyval" where
  "without_score res =
     (case res of
        PyDict kvs \<Rightarrow>
          PyDict (map (\<lambda>(k, w). if k = ''total_score''
                                 then (k, without_keys [''score'', ''rating''] w) else (k, w)) kvs)
      | _ \<Rightarrow> res)"

section \<open>Price position (\<^verbatim>\<open>calculate_price_appreciation_pct\<close>, lines 17-24)\<close>

definition calculate_price_appreciation_pct :: "real \<Rightarrow> real \<Rightarrow> real \<Rightarrow> real" where
  "calculate_price_appreciation_pct current_price highest_price lowest_price =
     (let total_range = highest_price - lowest_price
      in if 0 < total_range then
           (let current_from_low = current_price - lowest_price
            in (current_from_low / total_range) * 100)
         else 0)"

section \<open>Rolling-window analysis (\<^verbatim>\<open>analyze_stock_data\<close>, lines 544-641)\<close>

text \<open>\<^verbatim>\<open>data.loc[mask]\<close> and \<^verbatim>\<open>data[mask]\<close> for a mask computed from the index.\<close>

definition loc :: "frame \<Rightarrow> (int \<Rightarrow> bool) \<Rightarrow> frame" where
  "loc data keep =
     \<lparr>index = filter keep (index data),
      columns = map (\<lambda>(name, v). (name, map snd (filter (\<lambda>(d, x). keep d) (zip (index data) v))))
                  (columns data)\<rparr>"

text \<open>
  Lines 555-558 and 561-564: the rows up to \<open>current_date\<close>, cut to the dates after
  \<open>current_date - days\<close> when the first of them lies more than \<open>days\<close> back.
\<close>

definition trailing :: "frame \<Rightarrow> int \<Rightarrow> int \<Rightarrow> frame" where
  "trailing data days current_date =
     (let start = current_date - days;
          period_data = loc data (\<lambda>d. d \<le> current_date)
      in if days < current_date - hd (index period_data)
         then loc period_data (\<lambda>d. start < d)
         else period_data)"

text \<open>
  Lines 587-609: the R-square of a fresh fit over the lookback window, as a percentage;
  \<^verbatim>\<open>None\<close> for fewer than 20 rows and when the block raises.
\<close>

definition window_r2 :: "env \<Rightarrow> frame \<Rightarrow> pyexc + real" where
  "window_r2 env r2_data =
     try_then (getcol r2_data ''Close'') (\<lambda>close.
     let y = map ln close in
     try_then (scaled (days_since_first (index r2_data))) (\<lambda>X_scaled.
     try_then (fit env X_scaled y) (\<lambda>model.
     Inr (r2_score env y (predict model X_scaled) * 100))))"

definition r2_pct_of :: "env \<Rightarrow> frame \<Rightarrow> real option" where
  "r2_pct_of env r2_data =
     (if 20 \<le> length (index r2_data) then
        (case window_r2 env r2_data of Inl e \<Rightarrow> None | Inr r2_pct \<Rightarrow> Some r2_pct)
      else None)"

text \<open>One dictionary of \<^verbatim>\<open>result_data\<close> (lines 612-620).\<close>

record window_row =
  Date :: int
  Close :: real
  High :: real
  Low :: real
  Retracement_Ratio_Pct :: real
  Price_Position_Pct :: real
  R2_Pct :: "real option"

text \<open>\<^verbatim>\<open>Series.max()\<close> and \<^verbatim>\<open>Series.min()\<close> of a non-empty column.\<close>

definition series_max :: "real list \<Rightarrow> real" where
  "series_max xs = fold max (tl xs) (hd xs)"

definition series_min :: "real list \<Rightarrow> real" where
  "series_min xs = fold min (tl xs) (hd xs)"

text \<open>The loop body (lines 553-620) for one \<open>current_date\<close>.\<close>

definition analyze_date ::
  "env \<Rightarrow> frame \<Rightarrow> int \<Rightarrow> int \<Rightarrow> int \<Rightarrow> window_row list \<Rightarrow> pyexc + window_row list" where
  "analyze_date env data crossover_days lookback_days current_date result_data =
     (let r2_data = trailing data lookback_days current_date;
          period_data = trailing data crossover_days current_date
      in if length (index period_data) < 20 then Inr result_data
         else
           try_then (getcol period_data ''Close'') (\<lambda>close.
             let current_price = last close;
                 highest_price = series_max close;
                 lowest_price = series_min close;
                 total_move = highest_price - lowest_price;
                 ratio = (if 0 < total_move
                          then ((highest_price - current_price) / total_move) * 100
                          else 0);
                 appreciation_pct =
                   calculate_price_appreciation_pct current_price highest_price lowest_price;
                 r2_pct = r2_pct_of env r2_data
             in Inr (result_data @
                  [\<lparr>Date = current_date, Close = current_price, High = highest_price,
                    Low = lowest_price, Retracement_Ratio_Pct = ratio,
                    Price_Position_Pct = appreciation_pct, R2_Pct = r2_pct\<rparr>])))"

text \<open>
  \<^verbatim>\<open>df[col] = data[col]\<close> (line 629) aligns the column on the index of \<open>df\<close>: taken as
  it is when the two indexes are equal; otherwise pandas refuses a source index with
  duplicate labels (ValueError) and looks each date of \<open>df\<close> up, a nan standing for a
  date that is not found.
\<close>

definition reindexed :: "int list \<Rightarrow> real list \<Rightarrow> int list \<Rightarrow> pyexc + npfloat list" where
  "reindexed idx v dates =
     (if dates = idx then Inr (map Finite v)
      else if \<not> distinct idx then Inl ValueError
      else Inr (map (\<lambda>d. case map_of (zip idx v) d of None \<Rightarrow> NaN | Some x \<Rightarrow> Finite x) dates))"

definition attach ::
  "frame \<Rightarrow> int list \<Rightarrow> string \<Rightarrow> (string \<times> npfloat list) list
     \<Rightarrow> pyexc + (string \<times> npfloat list) list" where
  "attach data dates col acc =
     (case map_of (columns data) col of
        None \<Rightarrow> Inr acc
      | Some v \<Rightarrow> try_then (reindexed (index data) v dates) (\<lambda>w. Inr (acc @ [(col, w)])))"

text \<open>The returned table: the rows, indexed by their dates, and the copied columns.\<close>

record analysis =
  rows :: "window_row list"
  copied :: "(string \<times> npfloat list) list"

text \<open>
  \<^verbatim>\<open>analyze_stock_data(data, crossover_days=365, lookback_days=365)\<close>. Its handler
  (lines 639-641) logs and re-raises, so an exception of the body reaches the caller.
  \<^verbatim>\<open>df.set_index('Date')\<close> (line 624) raises KeyError on the frame of an empty
  \<^verbatim>\<open>result_data\<close>, which has no columns.
\<close>

definition analyze_stock_data :: "env \<Rightarrow> frame \<Rightarrow> int \<Rightarrow> int \<Rightarrow> pyexc + analysis" where
  "analyze_stock_data env data crossover_days lookback_days =
     try_then (for_loop (analyze_date env data crossover_days lookback_days) (index data) [])
       (\<lambda>result_data.
          if result_data = [] then Inl KeyError
          else
            try_then
              (for_loop (attach data (map Date result_data))
                 [''Open'', ''Volume'', ''Dividends'', ''Stock Splits''] [])
              (\<lambda>cols. Inr \<lparr>rows = result_data, copied = cols\<rparr>))"

text \<open>
  The specification's wording (section 4.6): the technical window of a date is the full
  history up to it, trimmed to the bound once the available history exceeds the bound.
\<close>

definition technical_window :: "int list \<Rightarrow> int \<Rightarrow> int \<Rightarrow> int list" where
  "technical_window dates bound t =
     (let history = filter (\<lambda>d. d \<le> t) dates
      in if bound < t - hd history then filter (\<lambda>d. t - d < bound) history else history)"

text \<open>A date qualifies for a row when its technical window holds at least 20 observations.\<close>

definition qualifies :: "int list \<Rightarrow> int \<Rightarrow> int \<Rightarrow> bool" where
  "qualifies dates bound t = (20 \<le> length (technical_window dates bound t))"

text \<open>A frame of \<open>n\<close> consecutive days with rising prices, for evaluating the model.\<close>

definition daily :: "nat \<Rightarrow> frame" where
  "daily n = \<lparr>index = map int [0..<n], columns = [(''Close'', map real [1..<Suc n])]\<rparr>"

section \<open>Rounding\<close>

lemma py_round_near: "\<bar>of_int (py_round x) - x\<bar> \<le> 1 / 2"
  unfolding py_round_def Let_def by (auto simp: abs_le_iff; linarith)

lemma py_round_mono:
  assumes "x \<le> y"
  shows "py_round x \<le> py_round y"
proof (cases "\<lfloor>x\<rfloor> = \<lfloor>y\<rfloor>")
  case True
  then show ?thesis
    using assms unfolding py_round_def Let_def by auto
next
  case False
  moreover have "\<lfloor>x\<rfloor> \<le> \<lfloor>y\<rfloor>"
    using assms by (rule floor_mono)
  ultimately have "\<lfloor>x\<rfloor> + 1 \<le> \<lfloor>y\<rfloor>"
    by simp
  moreover have "py_round x \<le> \<lfloor>x\<rfloor> + 1"
    unfolding py_round_def Let_def by auto
  moreover have "\<lfloor>y\<rfloor> \<le> py_round y"
    unfolding py_round_def Let_def by auto
  ultimately show ?thesis
    by linarith
qed

lemma py_round_of_int: "py_round (of_int n) = n"
  by (simp add: py_round_def)

lemma py_round_between:
  assumes "of_int lo \<le> x" and "x \<le> of_int hi"
  shows "lo \<le> py_round x \<and> py_round x \<le> hi"
  using py_round_mono [OF assms(1)] py_round_mono [OF assms(2)]
  by (simp add: py_round_of_int)

section \<open>The return score\<close>

lemma score_metric_return:
  "score_metric v b ''return'' = py_round (return_points v b)"
proof -
  define raw where "raw = 60 + (if 0 \<le> (v - b) * 100 then (v - b) * 100 / 2 else (v - b) * 100 * 2)"
  have code: "score_metric v b ''return''
                = (if 100 < raw then 100 else if raw < 25 then 25 else py_round raw)"
    unfolding score_metric_def raw_def Let_def by auto
  have spec: "return_points v b = min 100 (max 25 raw)"
  proof -
    have "60 - 2 * \<bar>(v - b) * 100\<bar> = 60 + (v - b) * 100 * 2" if "(v - b) * 100 < 0"
      using that by (simp add: abs_if)
    then show ?thesis
      unfolding return_points_def raw_def Let_def by (auto simp del: abs_mult)
  qed
  consider (high) "100 < raw" | (low) "raw < 25" | (mid) "25 \<le> raw" "raw \<le> 100"
    by linarith
  then show ?thesis
  proof cases
    case high
    then show ?thesis
      using py_round_of_int [of 100] by (simp add: code spec)
  next
    case low
    then show ?thesis
      using py_round_of_int [of 25] by (simp add: code spec)
  next
    case mid
    then show ?thesis
      by (simp add: code spec)
  qed
qed

lemma return_points_mono:
  assumes "v1 \<le> v2"
  shows "return_points v1 b \<le> return_points v2 b"
  using assms unfolding return_points_def Let_def
  by (auto simp: min_def max_def abs_if)

lemma return_points_range: "25 \<le> return_points v b \<and> return_points v b \<le> 100"
  unfolding return_points_def Let_def by (auto simp: min_def max_def)

text \<open>
  C6. For a fixed benchmark the return score does not decrease when the asset's
  annualized return grows; it lies between 25 and 100; and it is the integer nearest to
  base 60 plus half the difference in percentage points (twice the difference when it is
  negative), clamped to [25, 100].
\<close>

theorem return_score_monotone_clamped:
  assumes "v1 \<le> v2"
  shows "score_metric v1 b ''return'' \<le> score_metric v2 b ''return''
       \<and> 25 \<le> score_metric v1 b ''return'' \<and> score_metric v1 b ''return'' \<le> 100
       \<and> \<bar>of_int (score_metric v1 b ''return'') - return_points v1 b\<bar> \<le> 1 / 2"
proof -
  have "score_metric v1 b ''return'' \<le> score_metric v2 b ''return''"
    using py_round_mono [OF return_points_mono [OF assms]]
    by (simp add: score_metric_return)
  moreover have "25 \<le> score_metric v1 b ''return'' \<and> score_metric v1 b ''return'' \<le> 100"
    using py_round_between [of 25 "return_points v1 b" 100] return_points_range [of v1 b]
    by (simp add: score_metric_return)
  moreover have "\<bar>of_int (score_metric v1 b ''return'') - return_points v1 b\<bar> \<le> 1 / 2"
    unfolding score_metric_return by (rule py_round_near)
  ultimately show ?thesis
    by blast
qed

theorem return_score_monotone_clamped_witness:
  "score_metric 0.10 0.2384 ''return'' = 32 \<and> score_metric 0.30 0.2384 ''return'' = 63
   \<and> score_metric 0.10 0.2384 ''return'' \<le> score_metric 0.30 0.2384 ''return''
   \<and> \<bar>of_int (score_metric 0.10 0.2384 ''return'') - return_points 0.10 0.2384\<bar> \<le> 1 / 2"
proof -
  have le: "(0.10 :: real) \<le> 0.30"
    by simp
  have "score_metric 0.10 0.2384 ''return'' = 32"
    by (simp add: score_metric_def py_round_def Let_def)
  moreover have "score_metric 0.30 0.2384 ''return'' = 63"
    by (simp add: score_metric_def py_round_def Let_def)
  ultimately show ?thesis
    using return_score_monotone_clamped [OF le, of "0.2384"] by simp
qed

section \<open>The volatility score\<close>

text \<open>
  C7. For a positive benchmark and value the volatility score is the stepped lookup of
  the specification on \<open>ratio = value / benchmark\<close>; a ratio of 0.6 scores 100, a ratio
  of 1.0 scores 75 and a ratio of 2.5 scores 40.
\<close>

theorem volatility_score_stepped:
  assumes "0 < benchmark" and "0 < value"
  shows "score_metric value benchmark ''volatility''
           = stepped_lookup volatility_steps 40 (value / benchmark)
       \<and> (value / benchmark = 0.6 \<longrightarrow> score_metric value benchmark ''volatility'' = 100)
       \<and> (value / benchmark = 1.0 \<longrightarrow> score_metric value benchmark ''volatility'' = 75)
       \<and> (value / benchmark = 2.5 \<longrightarrow> score_metric value benchmark ''volatility'' = 40)"
proof -
  have nz: "benchmark \<noteq> 0"
    using assms(1) by simp
  have eq: "score_metric value benchmark ''volatility''
              = stepped_lookup volatility_steps 40 (value / benchmark)"
    by (simp add: score_metric_def np_truediv_def nz volatility_steps_def Let_def)
  have "stepped_lookup volatility_steps 40 r = 100" if "r = 0.6" for r
    using that by (simp add: volatility_steps_def)
  moreover have "stepped_lookup volatility_steps 40 r = 75" if "r = 1.0" for r
    using that by (simp add: volatility_steps_def)
  moreover have "stepped_lookup volatility_steps 40 r = 40" if "r = 2.5" for r
    using that by (simp add: volatility_steps_def)
  ultimately show ?thesis
    unfolding eq by blast
qed

theorem volatility_score_stepped_witness:
  "score_metric 0.075 0.125 ''volatility'' = 100
   \<and> score_metric 0.125 0.125 ''volatility'' = 75
   \<and> score_metric 0.3125 0.125 ''volatility'' = 40
   \<and> score_metric 0.2 0.125 ''volatility'' = stepped_lookup volatility_steps 40 (0.2 / 0.125)"
proof -
  have b: "(0 :: real) < 0.125"
    by simp
  have "score_metric 0.075 0.125 ''volatility'' = 100"
    using volatility_score_stepped [OF b, of "0.075"] by simp
  moreover have "score_metric 0.125 0.125 ''volatility'' = 75"
    using volatility_score_stepped [OF b, of "0.125"] by simp
  moreover have "score_metric 0.3125 0.125 ''volatility'' = 40"
    using volatility_score_stepped [OF b, of "0.3125"] by simp
  moreover have "score_metric 0.2 0.125 ''volatility''
                   = stepped_lookup volatility_steps 40 (0.2 / 0.125)"
    using volatility_score_stepped [OF b, of "0.2"] by simp
  ultimately show ?thesis
    by blast
qed

section \<open>The crossover loop\<close>

lemma appended_Nil: "appended acc [] = acc"
  by (cases acc) (simp add: appended_def)

lemma appended_appended: "appended (appended acc xs) ys = appended acc (xs @ ys)"
  by (cases acc) (simp add: appended_def)

lemma appended_empty: "appended ([], [], [], []) events = columns_of events"
  by (simp add: appended_def columns_of_def)

lemma append_crossing_Inr:
  assumes "append_crossing dates s1 s2 prices i direction acc = Inr acc'"
  shows "i < length dates \<and> i < length prices
       \<and> acc' = appended acc [(dates ! i, (s1 ! (i - 1) + s2 ! (i - 1)) / 2, direction, prices ! i)]"
  using assms
  by (cases acc)
     (auto simp: append_crossing_def try_then_def getitem_def appended_def split: if_splits)

lemma append_crossing_total:
  assumes "i - 1 < length s1" "i - 1 < length s2" "i < length dates" "i < length prices"
  shows "append_crossing dates s1 s2 prices i direction acc
           = Inr (appended acc [(dates ! i, (s1 ! (i - 1) + s2 ! (i - 1)) / 2, direction, prices ! i)])"
  using assms
  by (cases acc) (simp add: append_crossing_def try_then_def getitem_def appended_def)

lemma crossover_body_Inr:
  assumes "crossover_body dates s1 s2 prices diff i acc = Inr acc'"
  shows "acc' = appended acc (map (crossing_at dates s1 s2 prices diff) (crossing_indices diff [i]))
       \<and> (crossing_indices diff [i] = [i] \<longrightarrow> i < length dates \<and> i < length prices)"
proof -
  consider (down) "crossing_down diff i"
    | (up) "\<not> crossing_down diff i" "crossing_up diff i"
    | (none) "\<not> crossing_down diff i" "\<not> crossing_up diff i"
    by blast
  then show ?thesis
  proof cases
    case down
    then have "append_crossing dates s1 s2 prices i ''down'' acc = Inr acc'"
      using assms unfolding crossover_body_def crossing_down_def
      by (simp split: if_splits)
    from append_crossing_Inr [OF this] down show ?thesis
      by (simp add: crossing_indices_def crossing_at_def)
  next
    case up
    then have "append_crossing dates s1 s2 prices i ''up'' acc = Inr acc'"
      using assms unfolding crossover_body_def crossing_down_def crossing_up_def
      by (simp split: if_splits)
    from append_crossing_Inr [OF this] up show ?thesis
      by (simp add: crossing_indices_def crossing_at_def)
  next
    case none
    then have "acc' = acc"
      using assms unfolding crossover_body_def crossing_down_def crossing_up_def
      by (simp split: if_splits)
    with none show ?thesis
      by (simp add: crossing_indices_def appended_Nil)
  qed
qed

lemma crossing_indices_Cons:
  "crossing_indices diff (i # js) = crossing_indices diff [i] @ crossing_indices diff js"
  by (simp add: crossing_indices_def)

lemma crossover_loop_Inr:
  assumes "for_loop (crossover_body dates s1 s2 prices diff) js acc = Inr acc'"
  shows "acc' = appended acc (map (crossing_at dates s1 s2 prices diff) (crossing_indices diff js))
       \<and> (\<forall>i \<in> set (crossing_indices diff js). i < length dates \<and> i < length prices)"
  using assms
proof (induction js arbitrary: acc)
  case Nil
  then show ?case
    by (simp add: crossing_indices_def appended_Nil)
next
  case (Cons i js)
  from Cons.prems obtain mid where
    step: "crossover_body dates s1 s2 prices diff i acc = Inr mid" and
    rest: "for_loop (crossover_body dates s1 s2 prices diff) js mid = Inr acc'"
    by (auto split: sum.splits)
  note a = crossover_body_Inr [OF step] and b = Cons.IH [OF rest]
  have one: "crossing_indices diff [i] = [i] \<or> crossing_indices diff [i] = []"
    by (simp add: crossing_indices_def)
  have "acc' = appended acc (map (crossing_at dates s1 s2 prices diff) (crossing_indices diff (i # js)))"
    using a b by (simp add: crossing_indices_Cons [of diff i js] appended_appended)
  moreover have "\<forall>k \<in> set (crossing_indices diff (i # js)). k < length dates \<and> k < length prices"
    using a b one by (auto simp: crossing_indices_Cons [of diff i js])
  ultimately show ?case
    by blast
qed

lemma crossover_loop_total:
  assumes "\<forall>i \<in> set js. 1 \<le> i \<and> i < n"
    and "length s1 = n" "length s2 = n" "length dates = n" "length prices = n"
  shows "\<exists>acc'. for_loop (crossover_body dates s1 s2 prices diff) js acc = Inr acc'"
  using assms(1)
proof (induction js arbitrary: acc)
  case Nil
  show ?case
    by (simp del: split_paired_Ex)
next
  case (Cons i js)
  then have i: "i - 1 < n" "i < n"
    by auto
  have "\<exists>mid. crossover_body dates s1 s2 prices diff i acc = Inr mid"
    using i assms(2-5) unfolding crossover_body_def
    by (simp add: append_crossing_total del: split_paired_Ex)
  then obtain mid where "crossover_body dates s1 s2 prices diff i acc = Inr mid"
    by blast
  moreover have "\<exists>acc'. for_loop (crossover_body dates s1 s2 prices diff) js mid = Inr acc'"
    using Cons by simp
  ultimately show ?case
    by auto
qed

lemma sorted_crossing_indices: "sorted_wrt (<) (crossing_indices diff [1..<n])"
  unfolding crossing_indices_def by (rule sorted_wrt_filter) (simp add: sorted_wrt_upt)



lemma np_sub_same_length:
  assumes "length s2 = length s1"
  shows "np_sub s1 s2 = Inr (map2 (-) s1 s2)"
  using assms by (simp add: np_sub_def)

lemma find_crossover_points_Inr:
  assumes "find_crossover_points dates s1 s2 prices = Inr out"
  shows "\<exists>diff. np_sub s1 s2 = Inr diff
          \<and> out = columns_of (map (crossing_at dates s1 s2 prices diff)
                                  (crossing_indices diff [1..<length diff]))
          \<and> (\<forall>i \<in> set (crossing_indices diff [1..<length diff]).
                 i < length dates \<and> i < length prices)"
proof -
  from assms obtain diff where
    d: "np_sub s1 s2 = Inr diff" and
    l: "for_loop (crossover_body dates s1 s2 prices diff) [1..<length diff] ([], [], [], []) = Inr out"
    by (auto simp: find_crossover_points_def try_then_def split: sum.splits)
  from crossover_loop_Inr [OF l] d show ?thesis
    by (simp add: appended_empty)
qed

lemma find_crossover_points_total:
  assumes "length s2 = length s1" "length dates = length s1" "length prices = length s1"
  shows "\<exists>out. find_crossover_points dates s1 s2 prices = Inr out"
proof -
  have "\<forall>i \<in> set [1..<length (map2 (-) s1 s2)]. 1 \<le> i \<and> i < length s1"
    using assms(1) by simp
  from crossover_loop_total [OF this refl assms(1) assms(2) assms(3)]
  show ?thesis
    by (simp add: find_crossover_points_def try_then_def np_sub_same_length [OF assms(1)]
        del: split_paired_Ex)
qed

lemma sorted_map_nth:
  fixes xs :: "('a :: linorder) list"
  assumes "sorted xs" and "sorted_wrt (<) js" and "\<forall>j \<in> set js. j < length xs"
  shows "sorted (map ((!) xs) js)"
proof -
  have "sorted_wrt (\<lambda>i j. xs ! i \<le> xs ! j) js"
    using assms(2)
  proof (rule sorted_wrt_mono_rel [rotated])
    fix i j
    assume "i \<in> set js" "j \<in> set js" "i < j"
    then show "xs ! i \<le> xs ! j"
      using assms(1,3) by (simp add: sorted_nth_mono)
  qed
  then show ?thesis
    by (simp add: sorted_wrt_map)
qed

text \<open>
  C8. For series \<open>s1\<close>, \<open>s2\<close> of equal length with dates and prices of that length, the
  detector returns the events of one scan of \<open>diff = s1 - s2\<close> from index 1: at each
  \<open>i\<close> with \<open>diff[i-1] \<le> 0\<close> and \<open>diff[i] > 0\<close> a \<^verbatim>\<open>"down"\<close> event, at each \<open>i\<close> with
  \<open>diff[i-1] \<ge> 0\<close> and \<open>diff[i] < 0\<close> an \<^verbatim>\<open>"up"\<close> event, each with the midpoint
  \<open>(s1[i-1] + s2[i-1]) / 2\<close> and the date and price at \<open>i\<close>. On \<open>s1 = [1,2,3,2,1]\<close>,
  \<open>s2 = [2,2,2,2,2]\<close> it reports one \<^verbatim>\<open>"down"\<close> event (index 2) and one \<^verbatim>\<open>"up"\<close> event
  (index 4).
\<close>

theorem crossover_single_pass:
  fixes dates :: "'d list" and d0 :: 'd
  assumes "length s2 = length s1" and "length dates = length s1" and "length prices = length s1"
  shows "find_crossover_points dates s1 s2 prices
           = Inr (columns_of (map (crossing_at dates s1 s2 prices (map2 (-) s1 s2))
                                  (crossing_indices (map2 (-) s1 s2) [1..<length s1])))
       \<and> find_crossover_points [d0, d1, d2, d3, d4] [1, 2, 3, 2, 1] [2, 2, 2, 2, 2]
             [p0, p1, p2, p3, p4]
           = Inr ([d2, d4], [2, 2], [''down'', ''up''], [p2, p4])"
proof -
  obtain out where out: "find_crossover_points dates s1 s2 prices = Inr out"
    using find_crossover_points_total [OF assms] by blast
  from find_crossover_points_Inr [OF out] have
    "out = columns_of (map (crossing_at dates s1 s2 prices (map2 (-) s1 s2))
                           (crossing_indices (map2 (-) s1 s2) [1..<length s1]))"
    using assms(1) by (simp add: np_sub_same_length)
  moreover have "find_crossover_points [d0, d1, d2, d3, d4] [1, 2, 3, 2, 1] [2, 2, 2, 2, 2]
                   [p0, p1, p2, p3, p4]
                 = Inr ([d2, d4], [2, 2], [''down'', ''up''], [p2, p4])"
    by (simp add: find_crossover_points_def np_sub_def try_then_def crossover_body_def
        append_crossing_def getitem_def upt_rec)
  ultimately show ?thesis
    using out by simp
qed

theorem crossover_single_pass_witness:
  "find_crossover_points [0, 1, 2, 3, 4 :: nat] [1, 2, 3, 2, 1] [2, 2, 2, 2, 2]
       [10, 11, 12, 13, 14]
     = Inr (columns_of (map (crossing_at [0, 1, 2, 3, 4 :: nat] [1, 2, 3, 2, 1]
              [2, 2, 2, 2, 2] [10, 11, 12, 13, 14] (map2 (-) [1, 2, 3, 2, 1] [2, 2, 2, 2, 2]))
            (crossing_indices (map2 (-) [1, 2, 3, 2, 1] [2, 2, 2, 2, 2])
               [1..<length [1, 2, 3, 2, 1 :: real]])))
   \<and> crossing_indices (map2 (-) [1, 2, 3, 2, 1] [2, 2, 2, 2, 2]) [1..<5] = [2, 4]"
proof -
  have idx: "crossing_indices (map2 (-) [1, 2, 3, 2, 1] [2, 2, 2, 2, 2]) [1..<5] = [2, 4]"
    by (simp add: crossing_indices_def crossing_down_def crossing_up_def upt_rec)
  have l1: "length [2, 2, 2, 2, 2 :: real] = length [1, 2, 3, 2, 1 :: real]"
    and l2: "length [0, 1, 2, 3, 4 :: nat] = length [1, 2, 3, 2, 1 :: real]"
    and l3: "length [10, 11, 12, 13, 14 :: real] = length [1, 2, 3, 2, 1 :: real]"
    by simp_all
  from crossover_single_pass [OF l1 l2 l3, THEN conjunct1] idx show ?thesis
    by blast
qed

text \<open>
  C10. Whenever the detector returns, its four lists have the same length, every
  direction is \<^verbatim>\<open>"down"\<close> or \<^verbatim>\<open>"up"\<close>, and the events are those of a strictly
  increasing list of indices into the dates and prices, so that ordered dates give
  ordered event dates. It returns for all inputs of equal lengths
  (\<open>find_crossover_points_total\<close>); with other lengths a read can raise IndexError.
\<close>

theorem crossover_columns_aligned:
  fixes dates :: "('d :: linorder) list"
  assumes "find_crossover_points dates s1 s2 prices = Inr (pts, vals, dirs, prs)"
  shows "length pts = length vals \<and> length vals = length dirs \<and> length dirs = length prs
       \<and> set dirs \<subseteq> {''down'', ''up''}
       \<and> (\<exists>js. sorted_wrt (<) js \<and> set js \<subseteq> {1..<length dates}
                \<and> pts = map ((!) dates) js \<and> prs = map ((!) prices) js)
       \<and> (sorted dates \<longrightarrow> sorted pts)"
proof -
  from find_crossover_points_Inr [OF assms] obtain diff where
    out: "(pts, vals, dirs, prs) = columns_of (map (crossing_at dates s1 s2 prices diff)
                                  (crossing_indices diff [1..<length diff]))" and
    rng: "\<forall>i \<in> set (crossing_indices diff [1..<length diff]).
             i < length dates \<and> i < length prices"
    by blast
  define js where "js = crossing_indices diff [1..<length diff]"
  have srt: "sorted_wrt (<) js"
    unfolding js_def by (rule sorted_crossing_indices)
  have low: "\<forall>j \<in> set js. 1 \<le> j"
    unfolding js_def crossing_indices_def by simp
  have sub: "set js \<subseteq> {1..<length dates}"
    using low rng unfolding js_def by auto
  let ?ev = "crossing_at dates s1 s2 prices diff"
  have pts: "pts = map ((!) dates) js"
    using out unfolding js_def [symmetric] by (simp add: columns_of_def crossing_at_def)
  have prs: "prs = map ((!) prices) js"
    using out unfolding js_def [symmetric] by (simp add: columns_of_def crossing_at_def)
  have vals: "vals = map (fst \<circ> snd \<circ> ?ev) js"
    using out unfolding js_def [symmetric] by (simp add: columns_of_def)
  have dirs_eq: "dirs = map (fst \<circ> snd \<circ> snd \<circ> ?ev) js"
    using out unfolding js_def [symmetric] by (simp add: columns_of_def comp_assoc)
  have len: "length pts = length js" "length vals = length js" "length dirs = length js"
      "length prs = length js"
    by (simp_all add: pts prs vals dirs_eq)
  have dirs: "set dirs \<subseteq> {''down'', ''up''}"
    unfolding dirs_eq by (auto simp: crossing_at_def)
  have ordered: "sorted dates \<longrightarrow> sorted pts"
    unfolding pts using srt sub by (auto intro!: sorted_map_nth)
  have indexed: "\<exists>js. sorted_wrt (<) js \<and> set js \<subseteq> {1..<length dates}
                  \<and> pts = map ((!) dates) js \<and> prs = map ((!) prices) js"
    using srt sub pts prs by blast
  show ?thesis
    using len dirs indexed ordered by simp
qed

theorem crossover_columns_aligned_witness:
  "find_crossover_points [0, 1, 2, 3, 4 :: nat] [1, 3, 3, 3, 3] [2] [10, 11, 12]
     = Inr ([1], [3 / 2], [''down''], [11])
   \<and> set [''down''] \<subseteq> {''down'', ''up''}
   \<and> (\<exists>js. sorted_wrt (<) js \<and> set js \<subseteq> {1..<length [0, 1, 2, 3, 4 :: nat]}
            \<and> [1 :: nat] = map ((!) [0, 1, 2, 3, 4]) js \<and> [11 :: real] = map ((!) [10, 11, 12]) js)
   \<and> sorted [1 :: nat]"
proof -
  have run: "find_crossover_points [0, 1, 2, 3, 4 :: nat] [1, 3, 3, 3, 3] [2] [10, 11, 12]
               = Inr ([1], [3 / 2], [''down''], [11])"
    by (simp add: find_crossover_points_def np_sub_def try_then_def crossover_body_def
        append_crossing_def getitem_def upt_rec)
  have "sorted [0, 1, 2, 3, 4 :: nat]"
    by simp
  with crossover_columns_aligned [OF run] run show ?thesis
    by blast
qed

section \<open>Trend types and the trend score\<close>

text \<open>
  C9, as stated, fails where a coefficient is zero: for a quadratic coefficient 0 and a
  linear coefficient 1 none of the four flags holds, and the score is the unadjusted base
  50 times the confidence factor.
\<close>

theorem trend_type_none_counterexample:
  "filter id (flags (trend_type_of 0 1)) = []
   \<and> fst (evaluate_trend_score flat_env three_days 0 1 1) = 50"
  by (simp add: flags_def trend_type_of_def evaluate_trend_score_def getcol_def Let_def
      three_days_def)

text \<open>
  C9, amended. The four types exclude each other; exactly one holds when both coefficients
  are non-zero and none when one is zero, and they are the specification's sign classes.
  For a frame with a \<^verbatim>\<open>Close\<close> column the score is the neutral base 50 plus the adjustment
  of the type (none without a type), multiplied by \<open>0.6 + 0.4 r\<^sup>2\<close> and clamped to
  [0, 100].
\<close>

theorem trend_score_by_type:
  assumes "getcol data ''Close'' = Inr close"
  shows "length (filter id (flags (trend_type_of q l))) \<le> 1
       \<and> (length (filter id (flags (trend_type_of q l))) = 1) = (q \<noteq> 0 \<and> l \<noteq> 0)
       \<and> accelerating_up (trend_type_of q l) = (classify q l = Some AcceleratingUp)
       \<and> accelerating_down (trend_type_of q l) = (classify q l = Some AcceleratingDown)
       \<and> reversal_up (trend_type_of q l) = (classify q l = Some ReversalUp)
       \<and> reversal_down (trend_type_of q l) = (classify q l = Some ReversalDown)
       \<and> fst (evaluate_trend_score env data q l r)
           = min 100 (max 0
               ((50 + adjustment (classify q l)
                        (future_strength_of (annual_vol_of env close) (length (index data)) q)
                        (historic_strength_of (annual_vol_of env close) (length (index data)) l))
                * (0.6 + 0.4 * r ^ 2)))"
proof -
  have one: "length (filter id (flags (trend_type_of q l))) \<le> 1"
    by (auto simp: flags_def trend_type_of_def)
  have exact: "(length (filter id (flags (trend_type_of q l))) = 1) = (q \<noteq> 0 \<and> l \<noteq> 0)"
    by (auto simp: flags_def trend_type_of_def)
  have cls: "accelerating_up (trend_type_of q l) = (classify q l = Some AcceleratingUp)"
    "accelerating_down (trend_type_of q l) = (classify q l = Some AcceleratingDown)"
    "reversal_up (trend_type_of q l) = (classify q l = Some ReversalUp)"
    "reversal_down (trend_type_of q l) = (classify q l = Some ReversalDown)"
    by (auto simp: trend_type_of_def classify_def)
  define fs where "fs = future_strength_of (annual_vol_of env close) (length (index data)) q"
  define hs where "hs = historic_strength_of (annual_vol_of env close) (length (index data)) l"
  define ts where "ts =
     (if accelerating_up (trend_type_of q l) then 50 + (fs * 35 + hs * 25)
      else if accelerating_down (trend_type_of q l) then 50 - (fs * 35 + hs * 25)
      else if reversal_up (trend_type_of q l) then 50 + (fs * 35 - hs * 15)
      else if reversal_down (trend_type_of q l) then
        (if 0.7 < hs then 50 + hs * 35 else if hs < fs then 50 - fs * 25 else 50 + hs * 20)
      else 50)"
  have run: "fst (evaluate_trend_score env data q l r)
               = min 100 (max 0 (ts * (0.6 + 0.4 * r ^ 2)))"
    by (simp only: evaluate_trend_score_def assms Let_def sum.case fst_conv ts_def fs_def hs_def)
  consider (uu) "0 < q" "0 < l" | (dd) "q < 0" "l < 0" | (ud) "0 < q" "l < 0"
    | (du) "q < 0" "0 < l" | (zero) "q = 0 \<or> l = 0"
    by linarith
  then have "ts = 50 + adjustment (classify q l) fs hs"
  proof cases
    case uu then show ?thesis by (simp add: ts_def trend_type_of_def classify_def)
  next
    case dd then show ?thesis by (simp add: ts_def trend_type_of_def classify_def)
  next
    case ud then show ?thesis by (simp add: ts_def trend_type_of_def classify_def)
  next
    case du then show ?thesis by (simp add: ts_def trend_type_of_def classify_def)
  next
    case zero then show ?thesis by (auto simp: ts_def trend_type_of_def classify_def)
  qed
  with run have score: "fst (evaluate_trend_score env data q l r)
           = min 100 (max 0
               ((50 + adjustment (classify q l)
                        (future_strength_of (annual_vol_of env close) (length (index data)) q)
                        (historic_strength_of (annual_vol_of env close) (length (index data)) l))
                * (0.6 + 0.4 * r ^ 2)))"
    by (simp only: fs_def hs_def)
  from one exact cls score show ?thesis
    by blast
qed


theorem trend_score_by_type_witness:
  "classify (- 0.1134) 0.47 = Some ReversalDown
   \<and> reversal_down (trend_type_of (- 0.1134) 0.47)
   \<and> fst (evaluate_trend_score flat_env three_days (- 0.1134) 0.47 0.9505)
       = min 100 (max 0
           ((50 + adjustment (Some ReversalDown)
                    (future_strength_of (annual_vol_of flat_env [100, 120, 100]) 3 (- 0.1134))
                    (historic_strength_of (annual_vol_of flat_env [100, 120, 100]) 3 0.47))
            * (0.6 + 0.4 * 0.9505 ^ 2)))"
proof -
  have c: "getcol three_days ''Close'' = Inr [100, 120, 100]"
    by (simp add: getcol_def three_days_def)
  have k: "classify (- 0.1134) 0.47 = Some ReversalDown"
    by (simp add: classify_def)
  have n: "length (index three_days) = 3"
    by (simp add: three_days_def)
  from trend_score_by_type [OF c, of "- 0.1134" "0.47" flat_env "0.9505"] show ?thesis
    unfolding k n by simp
qed

section \<open>The composite analysis: results, exceptions and the caller's frame\<close>

lemma py_round2_near: "\<bar>py_round2 x - x\<bar> \<le> 1 / 200"
proof -
  have "\<bar>real_of_int (py_round (x * 100)) - x * 100\<bar> \<le> 1 / 2"
    by (rule py_round_near)
  then have "\<bar>real_of_int (py_round (x * 100)) / 100 - x\<bar> \<le> 1 / 200"
    by (simp add: abs_le_iff field_simps)
  then show ?thesis
    by (simp add: py_round2_def)
qed

lemma uniform_gap:
  assumes "0 \<le> u1" "u1 < 1" "0 \<le> u2" "u2 < 1"
  shows "\<bar>uniform (b - 2) (b + 2) u1 - uniform (b - 2) (b + 2) u2\<bar> < 4"
  using assms by (simp add: uniform_def abs_less_iff)

lemma scoring_draw:
  assumes "scoring env draw data close sp reg = Inr sc"
  shows "\<exists>base. \<forall>u. \<exists>sc'. scoring env u data close sp reg = Inr sc'
           \<and> final_score sc' = py_round2 (uniform (base - 2) (base + 2) u)
           \<and> rating sc' = rating_of (final_score sc')
           \<and> sc'\<lparr>final_score := 0, rating := []\<rparr> = sc\<lparr>final_score := 0, rating := []\<rparr>"
proof -
  from assms obtain ar where ar: "annualized_return (index data) close = Inr ar"
    by (auto simp: scoring_def try_then_def split: sum.splits)
  obtain ts ra cl where
    ev: "evaluate_trend_score env data (snd (snd (coef reg))) (fst (snd (coef reg))) (r2 reg)
           = (ts, ra, cl)"
    by (cases "evaluate_trend_score env data (snd (snd (coef reg))) (fst (snd (coef reg))) (r2 reg)")
  define rs where "rs = score_metric ar (annual_return sp) ''return''"
  define vs where "vs = score_metric (annual_vol_of env close) (annual_volatility sp) ''volatility''"
  define raw where "raw = ts * 0.3 + real_of_int rs * 0.6 + real_of_int vs * 0.10"
  define spraw where "spraw =
      fst (evaluate_trend_score env data (quad_coef sp) (linear_coef sp) (r_squared sp)) * 0.3
      + real_of_int (score_metric (annual_return sp) (annual_return sp) ''return'') * 0.6
      + real_of_int (score_metric (annual_volatility sp) (annual_volatility sp) ''volatility'')
          * 0.10"
  define base where "base = min 95 (raw * (75 / spraw))"
  have form: "scoring env u data close sp reg =
      Inr \<lparr>final_score = py_round2 (uniform (base - 2) (base + 2) u),
           raw_score = raw,
           rating = rating_of (py_round2 (uniform (base - 2) (base + 2) u)),
           trend_score = ts, ratio = ra, credibility_level = cl,
           return_score = rs, asset_return = ar, vol_score = vs,
           asset_volatility = annual_vol_of env close,
           scaling_factor = 75 / spraw, sp500_raw_score = spraw\<rparr>" for u
    unfolding scoring_def try_then_def ar ev Let_def base_def raw_def spraw_def rs_def vs_def
    by simp
  have "\<exists>sc'. scoring env u data close sp reg = Inr sc'
           \<and> final_score sc' = py_round2 (uniform (base - 2) (base + 2) u)
           \<and> rating sc' = rating_of (final_score sc')
           \<and> sc'\<lparr>final_score := 0, rating := []\<rparr> = sc\<lparr>final_score := 0, rating := []\<rparr>" for u
    using assms unfolding form [of u] form [of draw] by auto
  then show ?thesis
    by blast
qed

lemma scoring_Inl_any_draw:
  assumes "scoring env draw data close sp reg = Inl e"
  shows "scoring env u data close sp reg = Inl e"
  using assms
  by (auto simp: scoring_def try_then_def Let_def split: sum.splits prod.splits)


lemma scoring_total:
  assumes "annualized_return (index data) close = Inr ar"
  shows "\<exists>sc. scoring env u data close sp reg = Inr sc"
  unfolding scoring_def try_then_def assms Let_def
  by (simp split: prod.splits)

lemma scoring_Inl_iff:
  "(\<exists>e. scoring env u data close sp reg = Inl e)
     = (\<exists>e. annualized_return (index data) close = Inl e)"
  by (auto simp: scoring_def try_then_def Let_def split: sum.splits prod.splits)

lemma perform_absent:
  "perform_polynomial_regression env draw None future_days = (Inr no_data_result, None)"
  by (simp add: perform_polynomial_regression_def)

lemma perform_empty:
  assumes "df_empty df"
  shows "perform_polynomial_regression env draw (Some df) future_days
           = (Inr no_data_result, Some df)"
  using assms by (simp add: perform_polynomial_regression_def)

lemma perform_no_close:
  assumes "\<not> df_empty df" and "getcol df ''Close'' = Inl e"
  shows "perform_polynomial_regression env draw (Some df) future_days = (Inl KeyError, Some df)"
  using assms by (simp add: perform_polynomial_regression_def Let_def)

lemma perform_close:
  assumes "\<not> df_empty df" and "getcol df ''Close'' = Inr close"
  shows "perform_polynomial_regression env draw (Some df) future_days =
     (case regress env (setcol df ''Log_Close'' (map ln close)) future_days of
        Inl e \<Rightarrow> Inr (regression_failed_result close (length (index df)))
      | Inr reg \<Rightarrow>
          (case scoring env draw (setcol df ''Log_Close'' (map ln close)) close
                  (benchmark_parameters env df) reg of
             Inl e \<Rightarrow> Inr (error_occurred_result close (length (index df)))
           | Inr sc \<Rightarrow> Inr (complete_result reg sc)),
      Some (setcol df ''Log_Close'' (map ln close)))"
  using assms
  by (simp add: perform_polynomial_regression_def Let_def setcol_def split: sum.splits)

lemma score_of_results:
  "score_of no_data_result = Some (PyNum 0)"
  "score_of (regression_failed_result close n) = Some (PyNum 0)"
  "score_of (error_occurred_result close n) = Some (PyNum 0)"
  "score_of (complete_result reg sc) = Some (PyNum (final_score sc))"
  by (simp_all add: score_of_def no_data_result_def regression_failed_result_def
      error_occurred_result_def complete_result_def)

lemma rating_of_results:
  "path no_data_result [''total_score'', ''rating''] = Some (PyStr ''Error'')"
  "path (regression_failed_result close n) [''total_score'', ''rating''] = Some (PyStr ''Error'')"
  "path (error_occurred_result close n) [''total_score'', ''rating''] = Some (PyStr ''Error'')"
  "path (complete_result reg sc) [''total_score'', ''rating''] = Some (PyStr (rating sc))"
  by (simp_all add: no_data_result_def regression_failed_result_def
      error_occurred_result_def complete_result_def)

lemma predictions_of_results:
  "item no_data_result ''predictions'' = Some (PyList [])"
  "item (regression_failed_result close n) ''predictions'' = Some (tolist close)"
  "item (error_occurred_result close n) ''predictions'' = Some (tolist close)"
  "item (complete_result reg sc) ''predictions'' = Some (tolist (y_pred reg))"
  by (simp_all add: no_data_result_def regression_failed_result_def
      error_occurred_result_def complete_result_def)

lemma without_score_complete:
  assumes "sc\<lparr>final_score := 0, rating := []\<rparr> = sc'\<lparr>final_score := 0, rating := []\<rparr>"
  shows "without_score (complete_result reg sc) = without_score (complete_result reg sc')"
proof -
  from assms have
    "raw_score sc = raw_score sc'" "trend_score sc = trend_score sc'" "ratio sc = ratio sc'"
    "credibility_level sc = credibility_level sc'" "return_score sc = return_score sc'"
    "asset_return sc = asset_return sc'" "vol_score sc = vol_score sc'"
    "asset_volatility sc = asset_volatility sc'" "scaling_factor sc = scaling_factor sc'"
    "sp500_raw_score sc = sp500_raw_score sc'"
    by (cases sc; cases sc'; simp)+
  then show ?thesis
    by (simp add: without_score_def without_keys_def complete_result_def)
qed


text \<open>
  C5. For an absent or empty series the composite call returns the dictionary of lines
  76-95: rating \<^verbatim>\<open>"Error"\<close>, \<open>r2 = 0\<close>, empty predictions and bands, coefficients
  \<open>[0, 0, 0]\<close>, \<open>max_x = 0\<close> and the equation \<^verbatim>\<open>"No data available"\<close>; the caller's frame
  is untouched.
\<close>

theorem empty_series_result:
  assumes "data = None \<or> (\<exists>df. data = Some df \<and> df_empty df)"
  shows "perform_polynomial_regression env draw data future_days = (Inr no_data_result, data)
       \<and> path no_data_result [''total_score'', ''rating''] = Some (PyStr ''Error'')
       \<and> item no_data_result ''r2'' = Some (PyNum 0)
       \<and> item no_data_result ''predictions'' = Some (PyList [])
       \<and> item no_data_result ''upper_band'' = Some (PyList [])
       \<and> item no_data_result ''lower_band'' = Some (PyList [])
       \<and> item no_data_result ''coefficients'' = Some (PyList [PyNum 0, PyNum 0, PyNum 0])
       \<and> item no_data_result ''max_x'' = Some (PyNum 0)
       \<and> item no_data_result ''equation'' = Some (PyStr ''No data available'')"
proof -
  have "perform_polynomial_regression env draw data future_days = (Inr no_data_result, data)"
    using assms perform_absent perform_empty by blast
  then show ?thesis
    by (simp add: no_data_result_def)
qed

theorem empty_series_result_witness:
  "perform_polynomial_regression flat_env 0 (Some \<lparr>index = [], columns = [(''Close'', [])]\<rparr>) 180
     = (Inr no_data_result, Some \<lparr>index = [], columns = [(''Close'', [])]\<rparr>)
   \<and> perform_polynomial_regression flat_env 0 None 180 = (Inr no_data_result, None)
   \<and> path no_data_result [''total_score'', ''rating''] = Some (PyStr ''Error'')"
proof -
  have e: "df_empty \<lparr>index = [], columns = [(''Close'', [])]\<rparr>"
    by (simp add: df_empty_def)
  then have h: "Some \<lparr>index = [], columns = [(''Close'', [])]\<rparr> = None
      \<or> (\<exists>df. Some \<lparr>index = [], columns = [(''Close'', [])]\<rparr> = Some df \<and> df_empty df)"
    by blast
  have n: "(None :: frame option) = None \<or> (\<exists>df. None = Some df \<and> df_empty df)"
    by blast
  from empty_series_result [OF h, of flat_env 0 180] empty_series_result [OF n, of flat_env 0 180]
  show ?thesis
    by blast
qed

lemma three_days_not_empty: "\<not> df_empty three_days"
  by (simp add: df_empty_def three_days_def)

lemma three_days_close: "getcol three_days ''Close'' = Inr [100, 120, 100]"
  by (simp add: getcol_def three_days_def)

text \<open>
  C3 fails on the code: line 152 assigns \<^verbatim>\<open>data['Log_Close']\<close> on the caller's frame, which
  has one column more after the call.
\<close>

theorem caller_frame_gains_log_close:
  "snd (perform_polynomial_regression flat_env 0 (Some three_days) 180)
     = Some \<lparr>index = [0, 200, 365],
             columns = [(''Close'', [100, 120, 100]),
                        (''Log_Close'', [ln 100, ln 120, ln 100])]\<rparr>
   \<and> snd (perform_polynomial_regression flat_env 0 (Some three_days) 180) \<noteq> Some three_days"
  unfolding perform_close [OF three_days_not_empty three_days_close]
  by (simp add: setcol_def three_days_def)


lemma perform_result_cases:
  assumes "\<not> df_empty df" and "getcol df ''Close'' = Inr close"
  obtains
    (failed) "fst (perform_polynomial_regression env draw (Some df) future_days)
                = Inr (regression_failed_result close (length (index df)))"
  | (unscored) "fst (perform_polynomial_regression env draw (Some df) future_days)
                = Inr (error_occurred_result close (length (index df)))"
  | (complete) reg sc where
      "regress env (setcol df ''Log_Close'' (map ln close)) future_days = Inr reg"
      "scoring env draw (setcol df ''Log_Close'' (map ln close)) close
         (benchmark_parameters env df) reg = Inr sc"
      "fst (perform_polynomial_regression env draw (Some df) future_days)
         = Inr (complete_result reg sc)"
proof (cases "regress env (setcol df ''Log_Close'' (map ln close)) future_days")
  case (Inl e)
  then show ?thesis
    using failed by (simp add: perform_close [OF assms])
next
  case (Inr reg)
  show ?thesis
  proof (cases "scoring env draw (setcol df ''Log_Close'' (map ln close)) close
                  (benchmark_parameters env df) reg")
    case (Inl e)
    then show ?thesis
      using Inr unscored by (simp add: perform_close [OF assms])
  next
    case sc: (Inr sc)
    then show ?thesis
      using Inr complete [of reg sc] by (simp add: perform_close [OF assms])
  qed
qed

text \<open>
  C2, as stated, fails for the rolling-window analysis: its handler re-raises, and on an
  empty series the caller receives the KeyError of \<^verbatim>\<open>set_index\<close>.
\<close>

theorem rolling_analysis_raises_counterexample:
  "analyze_stock_data flat_env \<lparr>index = [], columns = [(''Close'', [])]\<rparr> 365 365 = Inl KeyError"
  by (simp add: analyze_stock_data_def try_then_def)

text \<open>
  C2, amended to the composite call. For an absent series, an empty one and every series
  with a \<^verbatim>\<open>Close\<close> column, whatever the collaborators return or raise, the composite call
  raises nothing: the caller receives a dictionary with its predictions, a numeric
  \<^verbatim>\<open>total_score.score\<close> and a \<^verbatim>\<open>total_score.rating\<close>. The rolling-window analysis hands
  an exception of its loop on to the caller.
\<close>

theorem composite_call_returns_result:
  assumes "data = None \<or> (\<exists>df. data = Some df \<and> (df_empty df \<or> (\<exists>close. getcol df ''Close'' = Inr close)))"
  shows "(\<exists>res score rating predictions.
            fst (perform_polynomial_regression env draw data future_days) = Inr res
            \<and> score_of res = Some (PyNum score)
            \<and> path res [''total_score'', ''rating''] = Some (PyStr rating)
            \<and> item res ''predictions'' = Some (PyList predictions))
       \<and> (\<forall>e. for_loop (analyze_date env frame crossover_days lookback_days) (index frame) []
                 = Inl e
               \<longrightarrow> analyze_stock_data env frame crossover_days lookback_days = Inl e)"
proof -
  let ?P = "\<lambda>res. \<exists>score rating predictions.
            score_of res = Some (PyNum score)
            \<and> path res [''total_score'', ''rating''] = Some (PyStr rating)
            \<and> item res ''predictions'' = Some (PyList predictions)"
  have s1: "?P no_data_result"
    by (intro exI conjI)
       (rule score_of_results(1), rule rating_of_results(1), rule predictions_of_results(1))
  have s2: "?P (regression_failed_result c n)" for c n
    by (intro exI conjI)
       (rule score_of_results(2), rule rating_of_results(2),
        rule predictions_of_results(2) [unfolded tolist_def])
  have s3: "?P (error_occurred_result c n)" for c n
    by (intro exI conjI)
       (rule score_of_results(3), rule rating_of_results(3),
        rule predictions_of_results(3) [unfolded tolist_def])
  have s4: "?P (complete_result reg sc)" for reg sc
    by (intro exI conjI)
       (rule score_of_results(4), rule rating_of_results(4),
        rule predictions_of_results(4) [unfolded tolist_def])
  consider (absent) "data = None" | (empty) df where "data = Some df" "df_empty df"
    | (close) df close where "data = Some df" "\<not> df_empty df" "getcol df ''Close'' = Inr close"
    using assms by blast
  then have "\<exists>res. fst (perform_polynomial_regression env draw data future_days) = Inr res \<and> ?P res"
  proof cases
    case absent
    have "fst (perform_polynomial_regression env draw data future_days) = Inr no_data_result"
      by (simp add: absent perform_absent)
    with s1 show ?thesis
      by blast
  next
    case empty
    have "fst (perform_polynomial_regression env draw data future_days) = Inr no_data_result"
      by (simp add: empty perform_empty)
    with s1 show ?thesis
      by blast
  next
    case close
    from close(2,3) show ?thesis
    proof (cases rule: perform_result_cases [where env = env and draw = draw
          and future_days = future_days])
      case failed
      with s2 show ?thesis
        unfolding close(1) by blast
    next
      case unscored
      with s3 show ?thesis
        unfolding close(1) by blast
    next
      case (complete reg sc)
      with s4 show ?thesis
        unfolding close(1) by blast
    qed
  qed
  moreover have "analyze_stock_data env frame crossover_days lookback_days = Inl e"
    if "for_loop (analyze_date env frame crossover_days lookback_days) (index frame) [] = Inl e" for e
    using that by (simp add: analyze_stock_data_def try_then_def)
  ultimately show ?thesis
    by blast
qed


theorem composite_call_returns_result_witness:
  "\<exists>res score rating predictions.
      fst (perform_polynomial_regression flat_env 0 (Some three_days) 180) = Inr res
      \<and> score_of res = Some (PyNum score)
      \<and> path res [''total_score'', ''rating''] = Some (PyStr rating)
      \<and> item res ''predictions'' = Some (PyList predictions)"
proof -
  have "Some three_days = None
      \<or> (\<exists>df. Some three_days = Some df
             \<and> (df_empty df \<or> (\<exists>close. getcol df ''Close'' = Inr close)))"
    using three_days_close by blast
  from composite_call_returns_result [OF this, THEN conjunct1] show ?thesis .
qed

lemma three_days_regress:
  "\<exists>reg. regress flat_env (setcol three_days ''Log_Close'' (map ln [100, 120, 100])) 180 = Inr reg"
  by (simp add: regress_def try_then_def getcol_def setcol_def three_days_def scaled_def
      np_max_def days_since_first_def flat_env_def Let_def)

lemma three_days_annualized:
  "annualized_return (index (setcol three_days ''Log_Close'' v)) [100, 120, 100] = Inr 0"
  by (simp add: annualized_return_def setcol_def three_days_def)

lemma three_days_complete:
  "\<exists>reg sc. fst (perform_polynomial_regression flat_env u (Some three_days) 180)
               = Inr (complete_result reg sc)
     \<and> scoring flat_env u (setcol three_days ''Log_Close'' (map ln [100, 120, 100]))
          [100, 120, 100] (benchmark_parameters flat_env three_days) reg = Inr sc
     \<and> regress flat_env (setcol three_days ''Log_Close'' (map ln [100, 120, 100])) 180 = Inr reg"
proof -
  obtain reg where reg:
    "regress flat_env (setcol three_days ''Log_Close'' (map ln [100, 120, 100])) 180 = Inr reg"
    using three_days_regress by blast
  obtain sc where sc:
    "scoring flat_env u (setcol three_days ''Log_Close'' (map ln [100, 120, 100]))
       [100, 120, 100] (benchmark_parameters flat_env three_days) reg = Inr sc"
    using scoring_total [OF three_days_annualized] by blast
  have "fst (perform_polynomial_regression flat_env u (Some three_days) 180)
          = Inr (complete_result reg sc)"
    unfolding perform_close [OF three_days_not_empty three_days_close] reg sum.case sc
    by simp
  with reg sc show ?thesis
    by blast
qed

lemma py_round2_apart:
  assumes "x + 1 / 50 < y"
  shows "py_round2 x \<noteq> py_round2 y"
  using py_round2_near [of x] py_round2_near [of y] assms
  by linarith

text \<open>
  C1, as stated, fails: line 398 draws from the random generator. On one series, with no
  benchmark data in both runs, the draws 0 and 1/2 give two different
  \<^verbatim>\<open>total_score.score\<close>.
\<close>

theorem score_depends_on_draw_counterexample:
  "(case fst (perform_polynomial_regression flat_env 0 (Some three_days) 180) of
      Inl e \<Rightarrow> None | Inr res \<Rightarrow> score_of res)
   \<noteq> (case fst (perform_polynomial_regression flat_env (1 / 2) (Some three_days) 180) of
      Inl e \<Rightarrow> None | Inr res \<Rightarrow> score_of res)"
proof -
  let ?df1 = "setcol three_days ''Log_Close'' (map ln [100, 120, 100])"
  let ?sp = "benchmark_parameters flat_env three_days"
  obtain reg a where
    a: "fst (perform_polynomial_regression flat_env 0 (Some three_days) 180)
          = Inr (complete_result reg a)"
       "scoring flat_env 0 ?df1 [100, 120, 100] ?sp reg = Inr a"
       "regress flat_env ?df1 180 = Inr reg"
    using three_days_complete [of 0] by blast
  obtain reg' b where
    b: "fst (perform_polynomial_regression flat_env (1 / 2) (Some three_days) 180)
          = Inr (complete_result reg' b)"
       "scoring flat_env (1 / 2) ?df1 [100, 120, 100] ?sp reg' = Inr b"
       "regress flat_env ?df1 180 = Inr reg'"
    using three_days_complete [of "1 / 2"] by blast
  have same: "reg' = reg"
    using a(3) b(3) by simp
  from scoring_draw [OF a(2)] obtain base where
    base: "\<And>u. \<exists>sc'. scoring flat_env u ?df1 [100, 120, 100] ?sp reg = Inr sc'
              \<and> final_score sc' = py_round2 (uniform (base - 2) (base + 2) u)"
    by blast
  have fa: "final_score a = py_round2 (base - 2)"
    using base [of 0] a(2) by (simp add: uniform_def)
  have fb: "final_score b = py_round2 base"
    using base [of "1 / 2"] b(2) unfolding same by (simp add: uniform_def)
  have "final_score a \<noteq> final_score b"
    unfolding fa fb by (rule py_round2_apart) simp
  then show ?thesis
    by (simp add: a(1) b(1) score_of_results)
qed

text \<open>
  C1, amended. Two calls on the same series, with the collaborators returning the same
  data, raise the same exception or return results that agree in every entry but
  \<^verbatim>\<open>total_score.score\<close> and \<^verbatim>\<open>total_score.rating\<close>, which the random draw of line 398
  decides; the two scores differ by less than 4.01. Both calls leave the same frame to the
  caller.
\<close>

theorem runs_agree_up_to_draw:
  assumes "0 \<le> u1" and "u1 < 1" and "0 \<le> u2" and "u2 < 1"
  shows "snd (perform_polynomial_regression env u1 data future_days)
           = snd (perform_polynomial_regression env u2 data future_days)
       \<and> (case (fst (perform_polynomial_regression env u1 data future_days),
                 fst (perform_polynomial_regression env u2 data future_days)) of
            (Inr a, Inr b) \<Rightarrow>
              without_score a = without_score b
              \<and> (\<exists>x y. score_of a = Some (PyNum x) \<and> score_of b = Some (PyNum y)
                        \<and> \<bar>x - y\<bar> < 401 / 100)
          | (Inl e, Inl e') \<Rightarrow> e = e'
          | (Inl e, Inr b) \<Rightarrow> False
          | (Inr a, Inl e') \<Rightarrow> False)"
proof -
  let ?run = "\<lambda>u. perform_polynomial_regression env u data future_days"
  have zero: "\<exists>x y. score_of res = Some (PyNum x) \<and> score_of res = Some (PyNum y)
                \<and> \<bar>x - y\<bar> < 401 / 100" if "score_of res = Some (PyNum 0)" for res
    using that by simp
  consider (absent) "data = None" | (empty) df where "data = Some df" "df_empty df"
    | (noclose) df e where "data = Some df" "\<not> df_empty df" "getcol df ''Close'' = Inl e"
    | (close) df close where "data = Some df" "\<not> df_empty df" "getcol df ''Close'' = Inr close"
    by (cases data; cases "getcol (the data) ''Close''") auto
  then show ?thesis
  proof cases
    case absent
    then show ?thesis
      using zero [OF score_of_results(1)] by (simp add: perform_absent)
  next
    case empty
    then show ?thesis
      using zero [OF score_of_results(1)] by (simp add: perform_empty)
  next
    case noclose
    then show ?thesis
      by (simp add: perform_no_close [OF noclose(2,3)])
  next
    case close
    let ?df1 = "setcol df ''Log_Close'' (map ln close)"
    let ?sp = "benchmark_parameters env df"
    note pc = perform_close [OF close(2,3), of env _ future_days]
    show ?thesis
    proof (cases "regress env ?df1 future_days")
      case (Inl e)
      then show ?thesis
        using zero [OF score_of_results(2)] by (simp add: close(1) pc)
    next
      case (Inr reg)
      show ?thesis
      proof (cases "scoring env u1 ?df1 close ?sp reg")
        case (Inl e)
        from scoring_Inl_any_draw [OF this] have "scoring env u2 ?df1 close ?sp reg = Inl e" .
        with Inl Inr show ?thesis
          using zero [OF score_of_results(3)] by (simp add: close(1) pc)
      next
        case sc1: (Inr sc1)
        from scoring_draw [OF sc1] obtain base sc2 where
          f1: "final_score sc1 = py_round2 (uniform (base - 2) (base + 2) u1)" and
          sc2: "scoring env u2 ?df1 close ?sp reg = Inr sc2" and
          f2: "final_score sc2 = py_round2 (uniform (base - 2) (base + 2) u2)" and
          eq: "sc2\<lparr>final_score := 0, rating := []\<rparr> = sc1\<lparr>final_score := 0, rating := []\<rparr>"
          using sc1 by (metis sum.inject(2))
        have "\<bar>final_score sc1 - final_score sc2\<bar> < 401 / 100"
          using py_round2_near [of "uniform (base - 2) (base + 2) u1"]
            py_round2_near [of "uniform (base - 2) (base + 2) u2"]
            uniform_gap [OF assms, of base]
          unfolding f1 f2 by linarith
        moreover have "without_score (complete_result reg sc1)
                         = without_score (complete_result reg sc2)"
          using eq by (intro without_score_complete) simp
        ultimately show ?thesis
          using Inr sc1 sc2 by (simp add: close(1) pc score_of_results)
      qed
    qed
  qed
qed


theorem runs_agree_up_to_draw_witness:
  "snd (perform_polynomial_regression flat_env 0 (Some three_days) 180)
     = snd (perform_polynomial_regression flat_env (1 / 2) (Some three_days) 180)
   \<and> (case (fst (perform_polynomial_regression flat_env 0 (Some three_days) 180),
             fst (perform_polynomial_regression flat_env (1 / 2) (Some three_days) 180)) of
        (Inr a, Inr b) \<Rightarrow>
          without_score a = without_score b
          \<and> (\<exists>x y. score_of a = Some (PyNum x) \<and> score_of b = Some (PyNum y)
                    \<and> \<bar>x - y\<bar> < 401 / 100)
      | (Inl e, Inl e') \<Rightarrow> e = e'
      | (Inl e, Inr b) \<Rightarrow> False
      | (Inr a, Inl e') \<Rightarrow> False)"
proof -
  have "(0 :: real) \<le> 0" and "(0 :: real) < 1" and "(0 :: real) \<le> 1 / 2" and "(1 / 2 :: real) < 1"
    by simp_all
  from runs_agree_up_to_draw [OF this] show ?thesis .
qed

section \<open>The rolling windows\<close>

lemma index_loc: "index (loc data keep) = filter keep (index data)"
  by (simp add: loc_def)

lemma index_trailing:
  "index (trailing data days t) = technical_window (index data) days t"
proof -
  have "(\<lambda>d. t - days < d) = (\<lambda>d. t - d < days)"
    by (rule ext) linarith
  then show ?thesis
    by (simp add: trailing_def technical_window_def Let_def index_loc)
qed

lemma getcol_loc:
  assumes "getcol data name = Inr v"
  shows "\<exists>w. getcol (loc data keep) name = Inr w"
proof -
  from assms have "map_of (columns data) name = Some v"
    by (simp add: getcol_def split: option.splits)
  then have "map_of (columns (loc data keep)) name
               = Some (map snd (filter (\<lambda>(d, x). keep d) (zip (index data) v)))"
    by (simp add: loc_def map_of_map)
  then show ?thesis
    by (simp add: getcol_def)
qed

lemma getcol_trailing:
  assumes "getcol data name = Inr v"
  shows "\<exists>w. getcol (trailing data days t) name = Inr w"
proof -
  obtain w where w: "getcol (loc data (\<lambda>d. d \<le> t)) name = Inr w"
    using getcol_loc [OF assms] by blast
  show ?thesis
    using w getcol_loc [OF w] by (simp add: trailing_def Let_def)
qed

lemma analyze_date_Inr:
  assumes "analyze_date env data c l t acc = Inr acc'"
  shows "map Date acc' = map Date acc @ filter (qualifies (index data) c) [t]"
  using assms
  by (auto simp: analyze_date_def Let_def try_then_def index_trailing qualifies_def
      split: if_splits sum.splits)

lemma analyze_date_total:
  assumes "getcol data ''Close'' = Inr v"
  shows "\<exists>acc'. analyze_date env data c l t acc = Inr acc'"
proof -
  obtain w where "getcol (trailing data c t) ''Close'' = Inr w"
    using getcol_trailing [OF assms] by blast
  then show ?thesis
    by (simp add: analyze_date_def Let_def try_then_def)
qed

lemma analyze_loop_Inr:
  assumes "for_loop (analyze_date env data c l) ts acc = Inr acc'"
  shows "map Date acc' = map Date acc @ filter (qualifies (index data) c) ts"
  using assms
proof (induction ts arbitrary: acc)
  case Nil
  then show ?case by simp
next
  case (Cons t ts)
  from Cons.prems obtain mid where
    step: "analyze_date env data c l t acc = Inr mid" and
    rest: "for_loop (analyze_date env data c l) ts mid = Inr acc'"
    by (auto split: sum.splits)
  from analyze_date_Inr [OF step] Cons.IH [OF rest] show ?case
    by simp
qed

lemma analyze_loop_total:
  assumes "getcol data ''Close'' = Inr v"
  shows "\<exists>acc'. for_loop (analyze_date env data c l) ts acc = Inr acc'"
proof (induction ts arbitrary: acc)
  case Nil
  show ?case by simp
next
  case (Cons t ts)
  obtain mid where "analyze_date env data c l t acc = Inr mid"
    using analyze_date_total [OF assms] by blast
  with Cons show ?case
    by simp
qed

lemma analyze_stock_data_Inr:
  assumes "analyze_stock_data env data c l = Inr out"
  shows "map Date (rows out) = filter (qualifies (index data) c) (index data)"
proof -
  from assms obtain result_data where
    loop: "for_loop (analyze_date env data c l) (index data) [] = Inr result_data" and
    out: "rows out = result_data"
    by (auto simp: analyze_stock_data_def try_then_def split: sum.splits if_splits)
  from analyze_loop_Inr [OF loop] out show ?thesis
    by simp
qed

lemma attach_total:
  assumes "distinct (index data)"
  shows "\<exists>acc'. attach data dates col acc = Inr acc'"
  using assms by (simp add: attach_def reindexed_def try_then_def split: option.splits)

lemma analyze_stock_data_returns:
  assumes "getcol data ''Close'' = Inr v" and "distinct (index data)"
    and "t \<in> set (index data)" and "qualifies (index data) c t"
  shows "\<exists>out. analyze_stock_data env data c l = Inr out"
proof -
  obtain result_data where
    loop: "for_loop (analyze_date env data c l) (index data) [] = Inr result_data"
    using analyze_loop_total [OF assms(1)] by blast
  from analyze_loop_Inr [OF loop] assms(3,4) have "t \<in> set (map Date result_data)"
    by simp
  then have ne: "result_data \<noteq> []"
    by auto
  obtain a1 where a1: "attach data (map Date result_data) ''Open'' [] = Inr a1"
    using attach_total [OF assms(2)] by blast
  obtain a2 where a2: "attach data (map Date result_data) ''Volume'' a1 = Inr a2"
    using attach_total [OF assms(2)] by blast
  obtain a3 where a3: "attach data (map Date result_data) ''Dividends'' a2 = Inr a3"
    using attach_total [OF assms(2)] by blast
  obtain a4 where a4: "attach data (map Date result_data) ''Stock Splits'' a3 = Inr a4"
    using attach_total [OF assms(2)] by blast
  show ?thesis
    by (simp add: analyze_stock_data_def try_then_def loop ne a1 a2 a3 a4)
qed

lemma technical_window_span:
  assumes "bound < t - hd (filter (\<lambda>d. d \<le> t) dates)"
    and "d \<in> set (technical_window dates bound t)"
  shows "d \<le> t \<and> t - d < bound"
  using assms by (simp add: technical_window_def Let_def)

lemma technical_window_history:
  assumes "d \<in> set (technical_window dates bound t)"
  shows "d \<in> set dates \<and> d \<le> t"
  using assms by (simp add: technical_window_def Let_def split: if_splits)


text \<open>
  C4. Whenever the rolling-window analysis returns, it has one row per date whose
  technical window (the trailing window the loop builds from \<open>crossover_days\<close>) holds at
  least 20 observations, in index order, and no other row; and once the history before a
  date exceeds \<open>crossover_days\<close>, every observation of its window lies less than
  \<open>crossover_days\<close> days back. The analysis returns for every series with a \<^verbatim>\<open>Close\<close>
  column and distinct dates of which one qualifies (\<open>analyze_stock_data_returns\<close>).
\<close>

theorem rolling_rows_iff_twenty:
  assumes "analyze_stock_data env data crossover_days lookback_days = Inr out"
  shows "map Date (rows out) = filter (qualifies (index data) crossover_days) (index data)
       \<and> (\<forall>t \<in> set (index data).
             (t \<in> Date ` set (rows out))
               = (20 \<le> length (technical_window (index data) crossover_days t)))
       \<and> (\<forall>t. index (trailing data crossover_days t)
                 = technical_window (index data) crossover_days t)
       \<and> (\<forall>t d. crossover_days < t - hd (filter (\<lambda>d. d \<le> t) (index data))
               \<longrightarrow> d \<in> set (technical_window (index data) crossover_days t)
               \<longrightarrow> d \<le> t \<and> t - d < crossover_days)"
proof -
  note dates = analyze_stock_data_Inr [OF assms]
  have "(t \<in> Date ` set (rows out))
          = (20 \<le> length (technical_window (index data) crossover_days t))"
    if "t \<in> set (index data)" for t
  proof -
    have "Date ` set (rows out) = set (map Date (rows out))"
      by simp
    then show ?thesis
      unfolding dates using that by (simp add: qualifies_def)
  qed
  then have rows_iff: "\<forall>t \<in> set (index data).
             (t \<in> Date ` set (rows out))
               = (20 \<le> length (technical_window (index data) crossover_days t))"
    by blast
  have used: "\<forall>t. index (trailing data crossover_days t)
                 = technical_window (index data) crossover_days t"
    by (simp add: index_trailing)
  have span: "\<forall>t d. crossover_days < t - hd (filter (\<lambda>d. d \<le> t) (index data))
               \<longrightarrow> d \<in> set (technical_window (index data) crossover_days t)
               \<longrightarrow> d \<le> t \<and> t - d < crossover_days"
    by (intro allI impI technical_window_span)
  from dates rows_iff used span show ?thesis
    by (intro conjI)
qed

lemma thirty_days:
  "[0..<30] = [0, 1, 2, 3, 4, 5, 6, 7, 8, 9, 10, 11, 12, 13, 14, 15, 16, 17, 18, 19, 20, 21, 22,
               23, 24, 25, 26, 27, 28, 29]"
  by (simp add: upt_rec)

lemma thirty_days_last_window:
  "technical_window (index (daily 30)) 25 29
     = [5, 6, 7, 8, 9, 10, 11, 12, 13, 14, 15, 16, 17, 18, 19, 20, 21, 22, 23, 24, 25, 26, 27,
        28, 29]"
  by (simp add: technical_window_def daily_def thirty_days Let_def)

lemma thirty_days_history: "hd (filter (\<lambda>d. d \<le> 29) (index (daily 30))) = 0"
  by (simp add: daily_def thirty_days)

theorem rolling_rows_iff_twenty_witness:
  "\<exists>out. analyze_stock_data flat_env (daily 30) 25 365 = Inr out
     \<and> map Date (rows out) = filter (qualifies (index (daily 30)) 25) (index (daily 30))
     \<and> qualifies (index (daily 30)) 25 29
     \<and> \<not> qualifies (index (daily 30)) 25 18
     \<and> (25 :: int) < 29 - hd (filter (\<lambda>d. d \<le> 29) (index (daily 30)))
     \<and> (5 :: int) \<le> 29 \<and> (29 :: int) - 5 < 25"
proof -
  have q29: "qualifies (index (daily 30)) 25 29"
    by (simp add: qualifies_def thirty_days_last_window)
  have q18: "\<not> qualifies (index (daily 30)) 25 18"
    by (simp add: qualifies_def technical_window_def daily_def thirty_days Let_def)
  have c: "getcol (daily 30) ''Close'' = Inr (map real [1..<31])"
    by (simp add: getcol_def daily_def)
  have d: "distinct (index (daily 30))"
    by (simp add: daily_def distinct_map inj_on_def)
  have m: "29 \<in> set (index (daily 30))"
    by (simp add: daily_def thirty_days)
  obtain out where out: "analyze_stock_data flat_env (daily 30) 25 365 = Inr out"
    using analyze_stock_data_returns [OF c d m q29] by blast
  have far: "(25 :: int) < 29 - hd (filter (\<lambda>d. d \<le> 29) (index (daily 30)))"
    by (simp add: thirty_days_history)
  have five: "5 \<in> set (technical_window (index (daily 30)) 25 29)"
    by (simp add: thirty_days_last_window)
  note main = rolling_rows_iff_twenty [OF out]
  from main have rows: "map Date (rows out)
                         = filter (qualifies (index (daily 30)) 25) (index (daily 30))"
    by (rule conjunct1)
  from main far five have "(5 :: int) \<le> 29 \<and> (29 :: int) - 5 < 25"
    by blast
  with out rows q29 q18 far show ?thesis
    by blast
qed

end
